theory Spec2Isabelle
  imports Main
begin

section \<open>Values exchanged with the outside\<close>

text \<open>
  A decoded JSON document, as \<open>json.load\<close> and \<open>response.json()\<close> return it. An object
  \<open>JObj kvs\<close> stands for the Python dict \<open>map_of kvs\<close>; JSON \<open>null\<close> is Python's
  \<open>None\<close>. Numbers are integers (the only numbers the program reads are the rate-limit
  counters).
\<close>

datatype json =
    JNull
  | JBool bool
  | JNum int
  | JStr string
  | JArr "json list"
  | JObj "(string \<times> json) list"

text \<open>
  The exceptions the program can meet. \<open>ConnectionError\<close> stands for every transport-level
  exception of the HTTP library (connection error, timeout); \<open>HTTPError\<close> is what
  \<open>raise_for_status\<close> raises; \<open>RetryError\<close> is what the retry decorator raises when it
  gives up.
\<close>

datatype exn =
    ConnectionError
  | HTTPError nat
  | JSONDecodeError
  | KeyError
  | IndexError
  | TypeError
  | AttributeError
  | NotImplementedError
  | RetryError

text \<open>Python's subscription \<open>v[k]\<close> on a decoded JSON value.\<close>

datatype subscript = Name string | Pos nat

fun getitem :: "json \<Rightarrow> subscript \<Rightarrow> exn + json" where
  "getitem (JObj kvs) (Name k) =
     (case map_of kvs k of None \<Rightarrow> Inl KeyError | Some v \<Rightarrow> Inr v)"
| "getitem (JObj kvs) (Pos i) = Inl KeyError"
| "getitem (JArr xs) (Pos i) = (if i < length xs then Inr (xs ! i) else Inl IndexError)"
| "getitem (JArr xs) (Name k) = Inl TypeError"
| "getitem (JStr s) (Pos i) = (if i < length s then Inr (JStr [s ! i]) else Inl IndexError)"
| "getitem (JStr s) (Name k) = Inl TypeError"
| "getitem JNull k = Inl TypeError"
| "getitem (JBool b) k = Inl TypeError"
| "getitem (JNum n) k = Inl TypeError"

text \<open>Sequencing of steps that may raise: the first exception ends the sequence.\<close>

definition and_then :: "exn + 'a \<Rightarrow> ('a \<Rightarrow> exn + 'b) \<Rightarrow> exn + 'b" where
  "and_then r f = (case r of Inl e \<Rightarrow> Inl e | Inr v \<Rightarrow> f v)"

text \<open>
  What one HTTP exchange does: the call raises a transport-level exception, or a response
  arrives with a status code and a body (\<open>None\<close> when the body is not JSON, so that
  \<open>response.json()\<close> raises).
\<close>

datatype http_outcome =
    Transport_failure
  | Response nat "json option"

text \<open>
  The HTTP client hands over no body for an informational status, 204 and 304, so such a
  response never decodes as JSON. \<open>receivable\<close> holds of the outcomes the program can
  really get.
\<close>

definition bodyless :: "nat \<Rightarrow> bool" where
  "bodyless status = (status < 200 \<or> status = 204 \<or> status = 304)"

definition receivable :: "http_outcome \<Rightarrow> bool" where
  "receivable out =
     (case out of
        Transport_failure \<Rightarrow> True
      | Response status body \<Rightarrow> if bodyless status then body = None else True)"

definition raise_for_status :: "nat \<Rightarrow> exn + unit" where
  "raise_for_status status =
     (if 400 \<le> status \<and> status < 600 then Inl (HTTPError status) else Inr ())"

definition response_json :: "json option \<Rightarrow> exn + json" where
  "response_json body = (case body of None \<Rightarrow> Inl JSONDecodeError | Some j \<Rightarrow> Inr j)"

section \<open>The observable run\<close>

text \<open>A table cell of a DataFrame: a decoded value, or the NaN that fills a missing field.\<close>

datatype cell = Cell json | NaN

type_synonym series = "(string \<times> cell) list"

type_synonym dataframe = "series list"

record result_row =
  title :: cell
  snippet :: cell
  displayed_link :: cell
  analysis :: string

datatype notice =
    Rate_limit_failed
  | Rate_limit_error exn
  | Analyze_error exn
  | Ad_success nat
  | Ad_failed nat
  | Analysis_complete nat
  | File_error exn
  | Invalid_login

text \<open>
  Everything the program does to the outside, in order: the GET of the account-status
  endpoint, a POST to the chat-completion endpoint (ad copy, search term, prompt),
  \<open>time.sleep\<close>, \<open>st.error\<close>/\<open>st.success\<close> messages, and the widgets that show tables.
\<close>

datatype event =
    Http_get_key
  | Http_post string string string
  | Sleep nat
  | Notice notice
  | Write_df dataframe
  | Expander nat cell string
  | Download_csv "result_row list"

type_synonym world = "event list"

fun is_http :: "event \<Rightarrow> bool" where
  "is_http Http_get_key = True"
| "is_http (Http_post a t p) = True"
| "is_http e = False"

fun is_post :: "event \<Rightarrow> bool" where
  "is_post (Http_post a t p) = True"
| "is_post e = False"

definition calls :: "world \<Rightarrow> nat" where
  "calls w = length (filter is_http w)"

definition posts :: "world \<Rightarrow> nat" where
  "posts w = length (filter is_post w)"

text \<open>
  The remote service: the outcome of the k-th HTTP exchange of the run, whatever the
  request was.
\<close>

type_synonym service = "nat \<Rightarrow> http_outcome"

definition requests_get :: "service \<Rightarrow> world \<Rightarrow> http_outcome \<times> world" where
  "requests_get env w = (env (calls w), w @ [Http_get_key])"

definition requests_post ::
  "service \<Rightarrow> string \<Rightarrow> string \<Rightarrow> string \<Rightarrow> world \<Rightarrow> http_outcome \<times> world" where
  "requests_post env ad_copy search_term prompt w =
     (env (calls w), w @ [Http_post ad_copy search_term prompt])"

section \<open>check_rate_limits\<close>

text \<open>
  The body of the \<open>try\<close>: the value returned, or the exception raised, once the exchange
  has the given outcome. \<open>None\<close> stands for the \<open>else\<close> branch (a status other than 200).
\<close>

definition rate_limit_try :: "http_outcome \<Rightarrow> exn + (json \<times> json) option" where
  "rate_limit_try out =
     (case out of
        Transport_failure \<Rightarrow> Inl ConnectionError
      | Response status body \<Rightarrow>
          if status = 200 then
            and_then (response_json body) (\<lambda>j.
            and_then (getitem j (Name ''data'')) (\<lambda>data.
            and_then (getitem data (Name ''rate_limit'')) (\<lambda>rl1.
            and_then (getitem rl1 (Name ''requests'')) (\<lambda>requests.
            and_then (getitem data (Name ''rate_limit'')) (\<lambda>rl2.
            and_then (getitem rl2 (Name ''interval'')) (\<lambda>interval.
            Inr (Some (requests, interval))))))))
          else Inr None)"

definition check_rate_limits :: "service \<Rightarrow> world \<Rightarrow> (json \<times> json) \<times> world" where
  "check_rate_limits env w =
     (case requests_get env w of (out, w1) \<Rightarrow>
        (case rate_limit_try out of
           Inr (Some pair) \<Rightarrow> (pair, w1)
         | Inr None \<Rightarrow> ((JNull, JNull), w1 @ [Notice Rate_limit_failed])
         | Inl e \<Rightarrow> ((JNull, JNull), w1 @ [Notice (Rate_limit_error e)])))"

section \<open>analyze_ad_copy\<close>

definition prompts :: "string list" where
  "prompts =
     [''Analyze the headline effectiveness and keyword usage in this ad.'',
      ''Evaluate the description's informativeness and persuasiveness.'',
      ''Assess the call-to-action strength and unique selling proposition.'',
      ''Analyze the ad's relevance to search intent and emotional appeal.'',
      ''Provide improvement suggestions and key takeaways from this ad.'']"

definition blank_line :: string where
  "blank_line = [CHR 0x0A, CHR 0x0A]"

text \<open>
  The operand of \<open>content + "\n\n"\<close>: the concatenation raises TypeError unless
  \<open>content\<close> is a string.
\<close>

fun str_operand :: "json \<Rightarrow> exn + string" where
  "str_operand (JStr s) = Inr s"
| "str_operand j = Inl TypeError"

text \<open>
  The body of the \<open>try\<close> of one prompt, once the POST has the given outcome: the
  \<open>content\<close> that goes into \<open>full_analysis\<close>, or the exception raised.
\<close>

definition prompt_try :: "http_outcome \<Rightarrow> exn + string" where
  "prompt_try out =
     (case out of
        Transport_failure \<Rightarrow> Inl ConnectionError
      | Response status body \<Rightarrow>
          and_then (raise_for_status status) (\<lambda>u.
          and_then (response_json body) (\<lambda>j.
          and_then (getitem j (Name ''choices'')) (\<lambda>choices.
          and_then (getitem choices (Pos 0)) (\<lambda>choice.
          and_then (getitem choice (Name ''message'')) (\<lambda>message.
          and_then (getitem message (Name ''content'')) str_operand))))))"

text \<open>The \<open>for prompt in prompts\<close> loop, with \<open>full_analysis\<close> as accumulator.\<close>

fun prompt_loop ::
  "service \<Rightarrow> string \<Rightarrow> string \<Rightarrow> string list \<Rightarrow> string \<Rightarrow> world \<Rightarrow> string option \<times> world" where
  "prompt_loop env ad_copy search_term [] full_analysis w = (Some full_analysis, w)"
| "prompt_loop env ad_copy search_term (prompt # rest) full_analysis w =
     (case requests_post env ad_copy search_term prompt w of (out, w1) \<Rightarrow>
        (case prompt_try out of
           Inl e \<Rightarrow> (None, w1 @ [Notice (Analyze_error e)])
         | Inr content \<Rightarrow>
             prompt_loop env ad_copy search_term rest (full_analysis @ content @ blank_line)
               (w1 @ [Sleep 1])))"

text \<open>
  The decorated function's own body. It returns (a text or \<open>None\<close>); no statement of it
  outside the \<open>try\<close> raises, so its result is always a return value.
\<close>

definition analyze_ad_copy_body ::
  "service \<Rightarrow> string \<Rightarrow> string \<Rightarrow> world \<Rightarrow> (exn + string option) \<times> world" where
  "analyze_ad_copy_body env ad_copy search_term w =
     (case prompt_loop env ad_copy search_term prompts [] w of (r, w1) \<Rightarrow> (Inr r, w1))"

text \<open>
  The \<open>@retry\<close> decorator: \<open>retry_if_exception_type(RequestException)\<close>,
  \<open>stop_after_attempt(3)\<close>, \<open>wait_exponential(multiplier=1, min=4, max=10)\<close>. The HTTP
  library's \<open>HTTPError\<close> and its JSON decoding error are subclasses of \<open>RequestException\<close>.
\<close>

fun is_request_exception :: "exn \<Rightarrow> bool" where
  "is_request_exception ConnectionError = True"
| "is_request_exception (HTTPError s) = True"
| "is_request_exception JSONDecodeError = True"
| "is_request_exception e = False"

definition wait_exponential :: "nat \<Rightarrow> nat" where
  "wait_exponential attempt = max 4 (min (2 ^ (attempt - 1)) 10)"

function retry ::
  "nat \<Rightarrow> (world \<Rightarrow> (exn + 'a) \<times> world) \<Rightarrow> world \<Rightarrow> (exn + 'a) \<times> world" where
  "retry attempt f w =
     (case f w of
        (Inr v, w1) \<Rightarrow> (Inr v, w1)
      | (Inl e, w1) \<Rightarrow>
          if \<not> is_request_exception e then (Inl e, w1)
          else if 3 \<le> attempt then (Inl RetryError, w1)
          else retry (Suc attempt) f (w1 @ [Sleep (wait_exponential attempt)]))"
  by pat_completeness auto
termination
  by (relation "measure (\<lambda>(attempt, f, w). 3 - attempt)") auto

definition analyze_ad_copy ::
  "service \<Rightarrow> string \<Rightarrow> string \<Rightarrow> world \<Rightarrow> (exn + string option) \<times> world" where
  "analyze_ad_copy env ad_copy search_term w =
     retry 1 (analyze_ad_copy_body env ad_copy search_term) w"

section \<open>process_dataframe\<close>

text \<open>
  The two library functions whose results the program only passes on: Python's \<open>str\<close>
  on a cell that is not text (number, \<open>None\<close>, NaN, list), and \<open>pandas.json_normalize\<close>,
  which builds the record table from the decoded \<open>organic_results\<close> value or raises.
\<close>

record library =
  str_of :: "cell \<Rightarrow> string"
  json_normalize :: "json \<Rightarrow> exn + dataframe"

text \<open>A replacement field of an f-string: a text cell is inserted as it is.\<close>

definition format_cell :: "library \<Rightarrow> cell \<Rightarrow> string" where
  "format_cell lib c = (case c of Cell (JStr s) \<Rightarrow> s | _ \<Rightarrow> str_of lib c)"

text \<open>\<open>row['title']\<close>: the cell of that column, or KeyError when the table has no such column.\<close>

definition column :: "series \<Rightarrow> string \<Rightarrow> exn + cell" where
  "column row name = (case map_of row name of None \<Rightarrow> Inl KeyError | Some c \<Rightarrow> Inr c)"

definition ad_copy_of :: "library \<Rightarrow> cell \<Rightarrow> cell \<Rightarrow> cell \<Rightarrow> string" where
  "ad_copy_of lib t s d =
     ''Title: '' @ format_cell lib t @ [CHR 0x0A] @
     ''Snippet: '' @ format_cell lib s @ [CHR 0x0A] @
     ''Display URL: '' @ format_cell lib d"

text \<open>
  The \<open>for index, row in df.iterrows()\<close> loop, with the \<open>results\<close> list as accumulator.
  An exception (a missing column, or one that leaves \<open>analyze_ad_copy\<close>) ends the loop
  and is raised to the caller.
\<close>

fun process_rows ::
  "library \<Rightarrow> service \<Rightarrow> string \<Rightarrow> nat \<Rightarrow> series list \<Rightarrow> result_row list \<Rightarrow> world \<Rightarrow>
   (exn + result_row list) \<times> world" where
  "process_rows lib env search_term index [] results w = (Inr results, w)"
| "process_rows lib env search_term index (row # rest) results w =
     (case column row ''title'' of Inl e \<Rightarrow> (Inl e, w) | Inr t \<Rightarrow>
     (case column row ''snippet'' of Inl e \<Rightarrow> (Inl e, w) | Inr s \<Rightarrow>
     (case column row ''displayed_link'' of Inl e \<Rightarrow> (Inl e, w) | Inr d \<Rightarrow>
     (case analyze_ad_copy env (ad_copy_of lib t s d) search_term w of
        (Inl e, w1) \<Rightarrow> (Inl e, w1)
      | (Inr (Some text), w1) \<Rightarrow>
          process_rows lib env search_term (Suc index) rest
            (results @ [\<lparr>title = t, snippet = s, displayed_link = d, analysis = text\<rparr>])
            (w1 @ [Notice (Ad_success (index + 1)), Sleep 1])
      | (Inr None, w1) \<Rightarrow>
          process_rows lib env search_term (Suc index) rest results
            (w1 @ [Notice (Ad_failed (index + 1)), Sleep 1])))))"

definition process_dataframe ::
  "library \<Rightarrow> service \<Rightarrow> dataframe \<Rightarrow> string \<Rightarrow> world \<Rightarrow> (exn + result_row list) \<times> world" where
  "process_dataframe lib env df search_term w = process_rows lib env search_term 0 df [] w"

section \<open>json_to_dataframe\<close>

text \<open>\<open>json_data.get('organic_results', [])\<close>: only a dict has \<open>get\<close>.\<close>

definition get_organic_results :: "json \<Rightarrow> exn + json" where
  "get_organic_results json_data =
     (case json_data of
        JObj kvs \<Rightarrow>
          (case map_of kvs ''organic_results'' of None \<Rightarrow> Inr (JArr []) | Some v \<Rightarrow> Inr v)
      | _ \<Rightarrow> Inl AttributeError)"

definition json_to_dataframe :: "library \<Rightarrow> json \<Rightarrow> exn + dataframe" where
  "json_to_dataframe lib json_data =
     and_then (get_organic_results json_data) (json_normalize lib)"

section \<open>main\<close>

record secrets =
  login_username :: string
  login_password :: string

definition authenticate :: "secrets \<Rightarrow> string \<Rightarrow> string \<Rightarrow> bool" where
  "authenticate sec username password =
     (username = login_username sec \<and> password = login_password sec)"

record session =
  logged_in :: bool
  results :: "result_row list option"

text \<open>The uploaded file as \<open>json.load\<close> finds it.\<close>

datatype upload = Not_json | Decodes json

definition json_load :: "upload \<Rightarrow> exn + json" where
  "json_load f = (case f of Not_json \<Rightarrow> Inl JSONDecodeError | Decodes j \<Rightarrow> Inr j)"

text \<open>What the user did on the page in this run of the script.\<close>

record page =
  login_submit :: "(string \<times> string) option"
  uploaded_file :: "upload option"
  search_term :: string
  analyze_clicked :: bool
  logout_clicked :: bool

text \<open>The display of the stored results: one expander per row, then the CSV download.\<close>

fun show_rows :: "nat \<Rightarrow> result_row list \<Rightarrow> world \<Rightarrow> world" where
  "show_rows index [] w = w"
| "show_rows index (row # rest) w =
     show_rows (Suc index) rest (w @ [Expander (index + 1) (title row) (analysis row)])"

definition show_results :: "session \<Rightarrow> world \<Rightarrow> world" where
  "show_results s w =
     (case results s of
        None \<Rightarrow> w
      | Some rows \<Rightarrow> show_rows 0 rows w @ [Download_csv rows])"

text \<open>
  How the body of the \<open>try\<close> in \<open>main\<close> ends: it raises, it returns from \<open>main\<close> (the
  rate-limit gate), or it runs to its end.
\<close>

datatype ending = Raised exn | Returned | Completed

definition main_try ::
  "library \<Rightarrow> service \<Rightarrow> upload \<Rightarrow> string \<Rightarrow> bool \<Rightarrow> session \<Rightarrow> world \<Rightarrow>
   ending \<times> session \<times> world" where
  "main_try lib env file term clicked s w =
     (case json_load file of Inl e \<Rightarrow> (Raised e, s, w) | Inr json_data \<Rightarrow>
     (case json_to_dataframe lib json_data of Inl e \<Rightarrow> (Raised e, s, w) | Inr df \<Rightarrow>
      (let w1 = w @ [Write_df df] in
       if clicked then
         (case check_rate_limits env w1 of ((rate_limit, interval), w2) \<Rightarrow>
            if rate_limit = JNull then (Returned, s, w2)
            else
              (case process_dataframe lib env df term w2 of
                 (Inl e, w3) \<Rightarrow> (Raised e, s, w3)
               | (Inr results_df, w3) \<Rightarrow>
                   (let s1 = s\<lparr>results := Some results_df\<rparr>;
                        w4 = w3 @ [Notice (Analysis_complete (length results_df))]
                    in (Completed, s1, show_results s1 w4))))
       else (Completed, s, show_results s w1))))"

definition main ::
  "secrets \<Rightarrow> library \<Rightarrow> service \<Rightarrow> page \<Rightarrow> session \<Rightarrow> world \<Rightarrow> session \<times> world" where
  "main sec lib env pg s w =
     (if \<not> logged_in s then
        (case login_submit pg of
           None \<Rightarrow> (s, w)
         | Some (username, password) \<Rightarrow>
             if authenticate sec username password then (s\<lparr>logged_in := True\<rparr>, w)
             else (s, w @ [Notice Invalid_login]))
      else
        (case
           (case uploaded_file pg of
              Some file \<Rightarrow>
                if search_term pg \<noteq> [] then
                  (case main_try lib env file (search_term pg) (analyze_clicked pg) s w of
                     (Raised e, s1, w1) \<Rightarrow> (Completed, s1, w1 @ [Notice (File_error e)])
                   | r \<Rightarrow> r)
                else (Completed, s, w)
            | None \<Rightarrow> (Completed, s, w))
         of (Returned, s1, w1) \<Rightarrow> (s1, w1)
          | (e, s1, w1) \<Rightarrow>
              if logout_clicked pg then (s1\<lparr>logged_in := False, results := None\<rparr>, w1)
              else (s1, w1)))"

section \<open>The vocabulary of the specification\<close>

text \<open>
  The chat-completion body the specification expects, \<open>{choices: [{message: {content}}]}\<close>
  with a text as content: the content when the body has that shape.
\<close>

definition chat_content :: "json \<Rightarrow> string option" where
  "chat_content j =
     (case j of
        JObj kvs \<Rightarrow>
          (case map_of kvs ''choices'' of
             Some (JArr (JObj c # others)) \<Rightarrow>
               (case map_of c ''message'' of
                  Some (JObj m) \<Rightarrow>
                    (case map_of m ''content'' of Some (JStr s) \<Rightarrow> Some s | _ \<Rightarrow> None)
                | _ \<Rightarrow> None)
           | _ \<Rightarrow> None)
      | _ \<Rightarrow> None)"

text \<open>
  A failed prompt call: a transport-level exception, an error status (4xx or 5xx), or a
  response whose body is not JSON or lacks the expected shape.
\<close>

definition failed_call :: "http_outcome \<Rightarrow> bool" where
  "failed_call out =
     (case out of
        Transport_failure \<Rightarrow> True
      | Response status body \<Rightarrow>
          (400 \<le> status \<and> status < 600) \<or>
          (case body of None \<Rightarrow> True | Some j \<Rightarrow> chat_content j = None))"

text \<open>
  The account-status body the specification expects,
  \<open>{data: {rate_limit: {requests, interval}}}\<close>: the pair when the body has that shape.
\<close>

definition rate_limit_pair :: "json \<Rightarrow> (json \<times> json) option" where
  "rate_limit_pair j =
     (case j of
        JObj kvs \<Rightarrow>
          (case map_of kvs ''data'' of
             Some (JObj d) \<Rightarrow>
               (case map_of d ''rate_limit'' of
                  Some (JObj r) \<Rightarrow>
                    (case map_of r ''requests'' of
                       Some a \<Rightarrow>
                         (case map_of r ''interval'' of Some b \<Rightarrow> Some (a, b) | None \<Rightarrow> None)
                     | None \<Rightarrow> None)
                | _ \<Rightarrow> None)
           | _ \<Rightarrow> None)
      | _ \<Rightarrow> None)"

text \<open>
  The segments of a text separated by blank lines: the text is cut at every \<open>"\n\n"\<close>,
  from the left, as Python's \<open>split("\n\n")\<close> cuts it.
\<close>

fun split_blank :: "string \<Rightarrow> string \<Rightarrow> string list" where
  "split_blank seg (a # b # cs) =
     (if a = CHR 0x0A \<and> b = CHR 0x0A then seg # split_blank [] cs
      else split_blank (seg @ [a]) (b # cs))"
| "split_blank seg [a] = [seg @ [a]]"
| "split_blank seg [] = [seg]"

definition segments :: "string \<Rightarrow> string list" where
  "segments s = filter (\<lambda>seg. seg \<noteq> []) (split_blank [] s)"

text \<open>The texts joined with a blank line between each two of them.\<close>

fun join_blank :: "string list \<Rightarrow> string" where
  "join_blank [] = []"
| "join_blank [t] = t"
| "join_blank (t # ts) = t @ blank_line @ join_blank ts"

text \<open>
  The AdRecord of a table row (title, snippet, displayed link), when the row has the three
  columns; the AnalysisResult of a row and of what the analyzer returned for it.
\<close>

definition record_of :: "series \<Rightarrow> (cell \<times> cell \<times> cell) option" where
  "record_of row =
     (case map_of row ''title'' of None \<Rightarrow> None | Some t \<Rightarrow>
     (case map_of row ''snippet'' of None \<Rightarrow> None | Some s \<Rightarrow>
     (case map_of row ''displayed_link'' of None \<Rightarrow> None | Some d \<Rightarrow> Some (t, s, d))))"

definition result_for :: "series \<Rightarrow> string option \<Rightarrow> result_row option" where
  "result_for row out =
     (case record_of row of
        None \<Rightarrow> None
      | Some (t, s, d) \<Rightarrow>
          (case out of
             None \<Rightarrow> None
           | Some text \<Rightarrow> Some \<lparr>title = t, snippet = s, displayed_link = d, analysis = text\<rparr>))"

text \<open>The per-record notification: success or failure of record number i, counted from 0.\<close>

definition record_notice :: "nat \<Rightarrow> string option \<Rightarrow> notice" where
  "record_notice i out =
     (case out of None \<Rightarrow> Ad_failed (i + 1) | Some a \<Rightarrow> Ad_success (i + 1))"

definition ad_copy_for :: "library \<Rightarrow> series \<Rightarrow> string" where
  "ad_copy_for lib row =
     (case record_of row of None \<Rightarrow> [] | Some (t, s, d) \<Rightarrow> ad_copy_of lib t s d)"

section \<open>Concrete runs\<close>

text \<open>
  The inputs of the examples below. \<open>chat_reply\<close> and \<open>key_reply\<close> are bodies the two
  endpoints send; the services answer every exchange of a run.
\<close>

definition chat_reply :: "string \<Rightarrow> json" where
  "chat_reply t =
     JObj [(''choices'', JArr [JObj [(''message'', JObj [(''content'', JStr t)])]])]"

definition key_reply :: json where
  "key_reply =
     JObj [(''data'', JObj [(''rate_limit'',
       JObj [(''requests'', JNum 200), (''interval'', JStr ''10s'')])])]"

definition unreachable :: service where
  "unreachable k = Transport_failure"

definition multiple_choices :: service where
  "multiple_choices k = Response (if k = 0 then 300 else 200) (Some (chat_reply ''fine''))"

definition first_call_fails :: service where
  "first_call_fails k =
     (if k = 0 then Transport_failure else Response 200 (Some (chat_reply ''fine'')))"

definition two_paragraphs :: service where
  "two_paragraphs k =
     Response 200 (Some (chat_reply
       (if k = 0 then ''a'' @ blank_line @ ''b'' else ''c'')))"

definition one_line_each :: service where
  "one_line_each k =
     Response 200 (Some (chat_reply
       (if k = 0 then ''h'' else if k = 1 then ''d'' else if k = 2 then ''c''
        else if k = 3 then ''r'' else ''s'')))"

definition empty_key_body :: service where
  "empty_key_body k = Response 200 (Some (JObj []))"

text \<open>
  Runs of the whole page: the probe is exchange 0, the chat calls follow. In
  \<open>third_prompt_500\<close> the third chat call (exchange 3) is answered with status 500; in
  \<open>third_fails\<close>, a run of the analyzer alone, it is exchange 2.
\<close>

definition healthy :: service where
  "healthy k = Response 200 (Some (if k = 0 then key_reply else chat_reply ''fine''))"

definition third_fails :: service where
  "third_fails k =
     (if k = 2 then Response 500 None else Response 200 (Some (chat_reply ''fine'')))"

definition third_prompt_500 :: service where
  "third_prompt_500 k =
     (if k = 0 then Response 200 (Some key_reply)
      else if k = 3 then Response 500 None
      else Response 200 (Some (chat_reply ''fine'')))"

definition probe_refused :: service where
  "probe_refused k = Response 503 None"

text \<open>
  An instance of the two library functions for the examples. It agrees with pandas on the
  empty list and on a list of one flat object, and with Python's \<open>str\<close> on NaN and
  \<open>None\<close>: the only values the examples pass to it.
\<close>

definition example_library :: library where
  "example_library =
     \<lparr>str_of = (\<lambda>c. case c of NaN \<Rightarrow> ''nan'' | _ \<Rightarrow> ''None''),
      json_normalize =
        (\<lambda>j. case j of
           JArr [] \<Rightarrow> Inr []
         | JArr [JObj kvs] \<Rightarrow> Inr [map (\<lambda>(k, v). (k, Cell v)) kvs]
         | _ \<Rightarrow> Inl NotImplementedError)\<rparr>"

definition widgets :: json where
  "widgets =
     JObj [(''organic_results'', JArr [JObj
       [(''title'', JStr ''Buy Widgets''),
        (''snippet'', JStr ''Best widgets online''),
        (''displayed_link'', JStr ''widgets.com'')]])]"

definition widgets_df :: dataframe where
  "widgets_df =
     [[(''title'', Cell (JStr ''Buy Widgets'')),
       (''snippet'', Cell (JStr ''Best widgets online'')),
       (''displayed_link'', Cell (JStr ''widgets.com''))]]"

text \<open>A table of two records, and a document whose only record has no snippet.\<close>

definition two_ads_df :: dataframe where
  "two_ads_df =
     [[(''title'', Cell (JStr ''A'')), (''snippet'', Cell (JStr ''first'')),
       (''displayed_link'', Cell (JStr ''a.com''))],
      [(''title'', Cell (JStr ''B'')), (''snippet'', Cell (JStr ''second'')),
       (''displayed_link'', Cell (JStr ''b.com''))]]"

definition no_snippet :: json where
  "no_snippet =
     JObj [(''organic_results'', JArr [JObj
       [(''title'', JStr ''Buy Widgets''), (''displayed_link'', JStr ''widgets.com'')]])]"

definition no_snippet_df :: dataframe where
  "no_snippet_df =
     [[(''title'', Cell (JStr ''Buy Widgets'')),
       (''displayed_link'', Cell (JStr ''widgets.com''))]]"

definition analyze_page :: "upload \<Rightarrow> page" where
  "analyze_page file =
     \<lparr>login_submit = None, uploaded_file = Some file, search_term = ''widgets'',
      analyze_clicked = True, logout_clicked = False\<rparr>"

definition signed_in :: session where
  "signed_in = \<lparr>logged_in = True, results = None\<rparr>"

definition demo_secrets :: secrets where
  "demo_secrets = \<lparr>login_username = ''admin'', login_password = ''secret''\<rparr>"

section \<open>Counting the exchanges of a run\<close>

lemma calls_Nil [simp]: "calls [] = 0"
  by (simp add: calls_def)

lemma calls_Cons [simp]: "calls (e # w) = (if is_http e then Suc (calls w) else calls w)"
  by (simp add: calls_def)

lemma calls_append [simp]: "calls (w @ v) = calls w + calls v"
  by (simp add: calls_def)

lemma posts_Nil [simp]: "posts [] = 0"
  by (simp add: posts_def)

lemma posts_Cons [simp]: "posts (e # w) = (if is_post e then Suc (posts w) else posts w)"
  by (simp add: posts_def)

lemma posts_append [simp]: "posts (w @ v) = posts w + posts v"
  by (simp add: posts_def)

section \<open>The analyzer\<close>

text \<open>The decorated body never raises, so the decorator returns after the first attempt.\<close>

lemma retry_returns:
  "retry n (analyze_ad_copy_body env ad st) w = analyze_ad_copy_body env ad st w"
  by (simp add: analyze_ad_copy_body_def split: prod.splits)

lemma analyze_ad_copy_loop:
  "analyze_ad_copy env ad st w =
     (Inr (fst (prompt_loop env ad st prompts [] w)), snd (prompt_loop env ad st prompts [] w))"
  by (simp add: analyze_ad_copy_def retry_returns analyze_ad_copy_body_def split: prod.splits)

lemma length_prompts: "length prompts = 5"
  by (simp add: prompts_def)

text \<open>The \<open>try\<close> of a prompt succeeds exactly on the expected shape and a status that is no error.\<close>

lemma getitem_Name_Inr:
  "getitem j (Name k) = Inr v \<longleftrightarrow> (\<exists>kvs. j = JObj kvs \<and> map_of kvs k = Some v)"
  by (cases j) (auto split: option.splits)

lemma getitem_Pos0_Inr:
  "getitem j (Pos 0) = Inr v \<longleftrightarrow>
     (\<exists>xs. j = JArr (v # xs)) \<or> (\<exists>c s. j = JStr (c # s) \<and> v = JStr [c])"
  by (cases j) (auto simp: neq_Nil_conv)

lemma str_operand_Inr: "str_operand j = Inr s \<longleftrightarrow> j = JStr s"
  by (cases j) auto

lemma and_then_Inr: "and_then r f = Inr v \<longleftrightarrow> (\<exists>x. r = Inr x \<and> f x = Inr v)"
  by (cases r) (auto simp: and_then_def)

lemma chat_content_Some:
  "chat_content j = Some t \<longleftrightarrow>
     (\<exists>kvs c others m. j = JObj kvs \<and> map_of kvs ''choices'' = Some (JArr (JObj c # others)) \<and>
        map_of c ''message'' = Some (JObj m) \<and> map_of m ''content'' = Some (JStr t))"
  unfolding chat_content_def
  by (auto split: json.splits option.splits list.splits)

lemma prompt_try_Inr:
  "prompt_try out = Inr t \<longleftrightarrow>
     (\<exists>status j. out = Response status (Some j) \<and> \<not> (400 \<le> status \<and> status < 600) \<and>
        chat_content j = Some t)"
proof (cases out)
  case Transport_failure
  then show ?thesis by (simp add: prompt_try_def)
next
  case (Response status body)
  show ?thesis
  proof (cases body)
    case None
    with Response show ?thesis
      by (simp add: prompt_try_def and_then_def raise_for_status_def response_json_def)
  next
    case (Some j)
    have "(\<exists>choices. getitem j (Name ''choices'') = Inr choices \<and>
            (\<exists>choice. getitem choices (Pos 0) = Inr choice \<and>
              (\<exists>message. getitem choice (Name ''message'') = Inr message \<and>
                (\<exists>content. getitem message (Name ''content'') = Inr content \<and>
                   str_operand content = Inr t)))) \<longleftrightarrow> chat_content j = Some t"
      unfolding getitem_Name_Inr getitem_Pos0_Inr str_operand_Inr chat_content_Some
      by auto
    with Response Some show ?thesis
      by (auto simp: prompt_try_def and_then_Inr raise_for_status_def response_json_def)
  qed
qed

lemma prompt_try_failed: "isl (prompt_try out) = failed_call out"
proof -
  have "\<not> isl (prompt_try out) \<longleftrightarrow> (\<exists>t. prompt_try out = Inr t)"
    by (cases "prompt_try out") auto
  also have "\<dots> \<longleftrightarrow> \<not> failed_call out"
    unfolding prompt_try_Inr
    by (cases out) (auto simp: failed_call_def split: option.splits)
  finally show ?thesis by blast
qed

text \<open>The loop stops at the first failed call; without one it runs through all prompts.\<close>

lemma prompt_loop_fail:
  "j < length ps \<Longrightarrow> (\<forall>i<j. \<not> failed_call (env (calls w + i))) \<Longrightarrow>
   failed_call (env (calls w + j)) \<Longrightarrow>
   fst (prompt_loop env ad st ps full w) = None \<and>
   calls (snd (prompt_loop env ad st ps full w)) = calls w + Suc j \<and>
   posts (snd (prompt_loop env ad st ps full w)) = posts w + Suc j"
proof (induction ps arbitrary: j full w)
  case Nil
  then show ?case by simp
next
  case (Cons p ps)
  show ?case
  proof (cases j)
    case 0
    with Cons.prems obtain e where "prompt_try (env (calls w)) = Inl e"
      using prompt_try_failed [of "env (calls w)"] by (cases "prompt_try (env (calls w))") auto
    with 0 show ?thesis by (simp add: requests_post_def)
  next
    case (Suc k)
    from Cons.prems Suc have "\<not> failed_call (env (calls w))" by force
    then obtain t where t: "prompt_try (env (calls w)) = Inr t"
      using prompt_try_failed [of "env (calls w)"] by (cases "prompt_try (env (calls w))") auto
    let ?w = "w @ [Http_post ad st p] @ [Sleep 1]"
    have c: "calls ?w = Suc (calls w)" by simp
    have k: "k < length ps" using Cons.prems Suc by simp
    have a: "\<forall>i<k. \<not> failed_call (env (calls ?w + i))"
    proof (intro allI impI)
      fix i assume "i < k"
      then have "Suc i < j" using Suc by simp
      with Cons.prems(2) have "\<not> failed_call (env (calls w + Suc i))" by blast
      then show "\<not> failed_call (env (calls ?w + i))" using c by simp
    qed
    have b: "failed_call (env (calls ?w + k))"
      using Cons.prems(3) Suc c by simp
    from Cons.IH[OF k a b, of "full @ t @ blank_line"] t Suc show ?thesis
      by (simp add: requests_post_def)
  qed
qed

lemma prompt_loop_ok:
  "length ts = length ps \<Longrightarrow> (\<forall>i<length ps. prompt_try (env (calls w + i)) = Inr (ts ! i)) \<Longrightarrow>
   fst (prompt_loop env ad st ps full w) = Some (full @ concat (map (\<lambda>t. t @ blank_line) ts)) \<and>
   calls (snd (prompt_loop env ad st ps full w)) = calls w + length ps \<and>
   posts (snd (prompt_loop env ad st ps full w)) = posts w + length ps"
proof (induction ps arbitrary: ts full w)
  case Nil
  then show ?case by simp
next
  case (Cons p ps)
  then obtain t ts' where ts: "ts = t # ts'" by (cases ts) auto
  let ?w = "w @ [Http_post ad st p] @ [Sleep 1]"
  have c: "calls ?w = Suc (calls w)" by simp
  have h: "prompt_try (env (calls w)) = Inr t" using Cons.prems(2) ts by force
  have l: "length ts' = length ps" using Cons.prems ts by simp
  have a: "\<forall>i<length ps. prompt_try (env (calls ?w + i)) = Inr (ts' ! i)"
  proof (intro allI impI)
    fix i assume "i < length ps"
    then have "Suc i < length (p # ps)" by simp
    with Cons.prems(2) have "prompt_try (env (calls w + Suc i)) = Inr (ts ! Suc i)"
      by blast
    then show "prompt_try (env (calls ?w + i)) = Inr (ts' ! i)"
      using ts c by simp
  qed
  from Cons.IH[OF l a, of "full @ t @ blank_line"] h ts show ?case
    by (simp add: requests_post_def)
qed

lemma all_succeed_texts:
  "(\<forall>i<n::nat. \<not> failed_call (env (c + i))) \<Longrightarrow>
   \<exists>ts. length ts = n \<and> (\<forall>i<n. prompt_try (env (c + i)) = Inr (ts ! i))"
proof -
  assume a: "\<forall>i<n. \<not> failed_call (env (c + i))"
  let ?ts = "map (\<lambda>i. projr (prompt_try (env (c + i)))) [0..<n]"
  have "\<forall>i<n. prompt_try (env (c + i)) = Inr (?ts ! i)"
  proof (intro allI impI)
    fix i assume i: "i < n"
    with a have "\<not> isl (prompt_try (env (c + i)))" by (simp add: prompt_try_failed)
    then show "prompt_try (env (c + i)) = Inr (?ts ! i)"
      using i by (cases "prompt_try (env (c + i))") auto
  qed
  then show ?thesis by (intro exI[of _ ?ts]) simp
qed

lemma first_failure:
  "(k::nat) < n \<Longrightarrow> failed_call (env (c + k)) \<Longrightarrow>
   \<exists>j<n. (\<forall>i<j. \<not> failed_call (env (c + i))) \<and> failed_call (env (c + j))"
proof -
  assume k: "k < n" and f: "failed_call (env (c + k))"
  define P where "P = (\<lambda>j. failed_call (env (c + j)))"
  let ?j = "LEAST j. P j"
  have f': "P k" using f by (simp add: P_def)
  have 1: "failed_call (env (c + ?j))" using LeastI [of P k, OF f'] by (simp add: P_def)
  have 2: "?j \<le> k" using Least_le [of P k, OF f'] .
  have 3: "\<forall>i<?j. \<not> failed_call (env (c + i))"
    using not_less_Least [of _ P] by (simp add: P_def)
  from 1 2 3 k show ?thesis by (intro exI[of _ ?j]) auto
qed

text \<open>Cutting the analysis at blank lines.\<close>

lemma concat_join_blank:
  "ts \<noteq> [] \<Longrightarrow> concat (map (\<lambda>t. t @ blank_line) ts) = join_blank ts @ blank_line"
  by (induction ts rule: join_blank.induct) auto

lemma split_blank_text:
  "CHR 0x0A \<notin> set t \<Longrightarrow>
   split_blank seg (t @ blank_line @ rest) = (seg @ t) # split_blank [] rest"
proof (induction t arbitrary: seg)
  case Nil
  then show ?case by (simp add: blank_line_def)
next
  case (Cons a t)
  then have a: "a \<noteq> CHR 0x0A" and t: "CHR 0x0A \<notin> set t" by auto
  obtain b cs where bc: "t @ blank_line @ rest = b # cs"
    by (cases "t @ blank_line @ rest") (auto simp: blank_line_def)
  have "split_blank seg ((a # t) @ blank_line @ rest) = split_blank (seg @ [a]) (b # cs)"
    using a bc by simp
  also have "\<dots> = ((seg @ [a]) @ t) # split_blank [] rest"
    using Cons.IH [OF t, of "seg @ [a]"] bc by simp
  finally show ?case by simp
qed

lemma split_blank_texts:
  "\<forall>t\<in>set ts. CHR 0x0A \<notin> set t \<Longrightarrow>
   split_blank [] (concat (map (\<lambda>t. t @ blank_line) ts)) = ts @ [[]]"
proof (induction ts)
  case Nil
  then show ?case by simp
next
  case (Cons t ts)
  then show ?case
    using split_blank_text [of t "[]" "concat (map (\<lambda>t. t @ blank_line) ts)"] by simp
qed

lemma segments_texts:
  "\<forall>t\<in>set ts. t \<noteq> [] \<and> CHR 0x0A \<notin> set t \<Longrightarrow>
   segments (concat (map (\<lambda>t. t @ blank_line) ts)) = ts"
proof -
  assume a: "\<forall>t\<in>set ts. t \<noteq> [] \<and> CHR 0x0A \<notin> set t"
  then have "filter (\<lambda>seg. seg \<noteq> []) ts = ts" by (simp add: filter_id_conv)
  with a show ?thesis by (simp add: segments_def split_blank_texts)
qed

lemma prompt_try_chat_reply:
  "\<not> (400 \<le> status \<and> status < 600) \<Longrightarrow>
   prompt_try (Response status (Some (chat_reply t))) = Inr t"
  by (simp add: prompt_try_Inr chat_content_def chat_reply_def)

section \<open>The batch processor\<close>

lemma column_record_of:
  "record_of row = Some (t, s, d) \<Longrightarrow>
   column row ''title'' = Inr t \<and> column row ''snippet'' = Inr s \<and>
   column row ''displayed_link'' = Inr d"
  by (auto simp: record_of_def column_def split: option.splits)

lemma analyze_ad_copy_returns:
  "\<exists>r w1. analyze_ad_copy env ad topic w = (Inr r, w1)"
  by (simp add: analyze_ad_copy_loop)

lemma process_rows_run:
  "\<forall>row\<in>set rows. record_of row \<noteq> None \<Longrightarrow>
   \<exists>outs ws. length outs = length rows \<and> length ws = Suc (length rows) \<and> ws ! 0 = w \<and>
     (\<forall>i<length rows.
        fst (analyze_ad_copy env (ad_copy_for lib (rows ! i)) topic (ws ! i)) = Inr (outs ! i) \<and>
        ws ! Suc i =
          snd (analyze_ad_copy env (ad_copy_for lib (rows ! i)) topic (ws ! i)) @
            [Notice (record_notice (idx + i) (outs ! i)), Sleep 1]) \<and>
     process_rows lib env topic idx rows acc w =
       (Inr (acc @ List.map_filter (\<lambda>(row, out). result_for row out) (zip rows outs)),
        ws ! length rows)"
proof (induction rows arbitrary: idx acc w)
  case Nil
  show ?case by (intro exI [of _ "[]"] exI [of _ "[w]"]) simp
next
  case (Cons row rows)
  then obtain t s d where rec: "record_of row = Some (t, s, d)" by auto
  note col = column_record_of [OF rec]
  have ad: "ad_copy_for lib row = ad_copy_of lib t s d" by (simp add: ad_copy_for_def rec)
  obtain r w1 where an: "analyze_ad_copy env (ad_copy_of lib t s d) topic w = (Inr r, w1)"
    using analyze_ad_copy_returns by blast
  from Cons.prems have wf: "\<forall>row\<in>set rows. record_of row \<noteq> None" by simp
  let ?w = "w1 @ [Notice (record_notice idx r), Sleep 1]"
  let ?acc = "acc @ List.map_filter (\<lambda>(row, out). result_for row out) [(row, r)]"
  from Cons.IH [OF wf, of ?w "Suc idx" ?acc] obtain outs ws where
    ih: "length outs = length rows" "length ws = Suc (length rows)" "ws ! 0 = ?w"
      "\<forall>i<length rows.
        fst (analyze_ad_copy env (ad_copy_for lib (rows ! i)) topic (ws ! i)) = Inr (outs ! i) \<and>
        ws ! Suc i =
          snd (analyze_ad_copy env (ad_copy_for lib (rows ! i)) topic (ws ! i)) @
            [Notice (record_notice (Suc idx + i) (outs ! i)), Sleep 1]"
      "process_rows lib env topic (Suc idx) rows ?acc ?w =
        (Inr (?acc @ List.map_filter (\<lambda>(row, out). result_for row out) (zip rows outs)),
         ws ! length rows)"
    by blast
  have 1: "length (r # outs) = length (row # rows)" using ih(1) by simp
  have 2: "length (w # ws) = Suc (length (row # rows))" using ih(2) by simp
  have 3: "(w # ws) ! 0 = w" by simp
  have 4: "\<forall>i<length (row # rows).
        fst (analyze_ad_copy env (ad_copy_for lib ((row # rows) ! i)) topic ((w # ws) ! i)) =
          Inr ((r # outs) ! i) \<and>
        (w # ws) ! Suc i =
          snd (analyze_ad_copy env (ad_copy_for lib ((row # rows) ! i)) topic ((w # ws) ! i)) @
            [Notice (record_notice (idx + i) ((r # outs) ! i)), Sleep 1]"
  proof (intro allI impI)
    fix i assume lt: "i < length (row # rows)"
    show "fst (analyze_ad_copy env (ad_copy_for lib ((row # rows) ! i)) topic ((w # ws) ! i)) =
          Inr ((r # outs) ! i) \<and>
        (w # ws) ! Suc i =
          snd (analyze_ad_copy env (ad_copy_for lib ((row # rows) ! i)) topic ((w # ws) ! i)) @
            [Notice (record_notice (idx + i) ((r # outs) ! i)), Sleep 1]"
    proof (cases i)
      case 0
      then show ?thesis using an ad ih(3) by simp
    next
      case (Suc k)
      then have "k < length rows" using lt by simp
      with ih(4) Suc show ?thesis by simp
    qed
  qed
  have 5: "process_rows lib env topic idx (row # rows) acc w =
       (Inr (acc @ List.map_filter (\<lambda>(row, out). result_for row out)
                (zip (row # rows) (r # outs))),
        (w # ws) ! length (row # rows))"
  proof (cases r)
    case None
    with col an ih(5) show ?thesis
      by (simp add: result_for_def rec record_notice_def)
  next
    case (Some res)
    with col an ih(5) show ?thesis
      by (simp add: result_for_def rec record_notice_def)
  qed
  from 1 2 3 4 5 show ?case by blast
qed

lemma length_results_succeeded:
  "length outs = length rows \<Longrightarrow> \<forall>row\<in>set rows. record_of row \<noteq> None \<Longrightarrow>
   length (List.map_filter (\<lambda>(row, out). result_for row out) (zip rows outs)) =
     length (filter (\<lambda>out. out \<noteq> None) outs)"
proof (induction outs rows rule: list_induct2)
  case Nil
  then show ?case by simp
next
  case (Cons out outs row rows)
  then obtain t s d where "record_of row = Some (t, s, d)" by auto
  with Cons show ?case
    by (cases out) (simp_all add: result_for_def)
qed

section \<open>The rate-limit probe and the page\<close>

lemma rate_limit_pair_Some:
  "rate_limit_pair j = Some (a, b) \<longleftrightarrow>
     (\<exists>kvs d r. j = JObj kvs \<and> map_of kvs ''data'' = Some (JObj d) \<and>
        map_of d ''rate_limit'' = Some (JObj r) \<and> map_of r ''requests'' = Some a \<and>
        map_of r ''interval'' = Some b)"
  unfolding rate_limit_pair_def
  by (auto split: json.splits option.splits)

lemma rate_limit_try_200:
  "rate_limit_try (Response 200 (Some j)) = Inr x \<longleftrightarrow>
     (\<exists>a b. x = Some (a, b) \<and> rate_limit_pair j = Some (a, b))"
proof -
  have "rate_limit_try (Response 200 (Some j)) = Inr x \<longleftrightarrow>
     (\<exists>data. getitem j (Name ''data'') = Inr data \<and>
       (\<exists>rl1. getitem data (Name ''rate_limit'') = Inr rl1 \<and>
         (\<exists>requests. getitem rl1 (Name ''requests'') = Inr requests \<and>
           (\<exists>rl2. getitem data (Name ''rate_limit'') = Inr rl2 \<and>
             (\<exists>interval. getitem rl2 (Name ''interval'') = Inr interval \<and>
                x = Some (requests, interval))))))"
    by (auto simp: rate_limit_try_def and_then_Inr response_json_def)
  also have "\<dots> \<longleftrightarrow> (\<exists>a b. x = Some (a, b) \<and> rate_limit_pair j = Some (a, b))"
    unfolding getitem_Name_Inr rate_limit_pair_Some by auto
  finally show ?thesis .
qed

lemma rate_limit_try_shape:
  "rate_limit_pair j = Some p \<Longrightarrow> rate_limit_try (Response 200 (Some j)) = Inr (Some p)"
  using rate_limit_try_200 [of j "Some p"] by (cases p) simp

lemma rate_limit_try_no_shape:
  "rate_limit_pair j = None \<Longrightarrow> \<exists>e. rate_limit_try (Response 200 (Some j)) = Inl e"
  using rate_limit_try_200 [of j] by (cases "rate_limit_try (Response 200 (Some j))") auto

lemma rate_limit_try_not_json: "rate_limit_try (Response 200 None) = Inl JSONDecodeError"
  by (simp add: rate_limit_try_def response_json_def and_then_def)

lemma rate_limit_try_other_status:
  "status \<noteq> 200 \<Longrightarrow> rate_limit_try (Response status body) = Inr None"
  by (simp add: rate_limit_try_def)

lemma rate_limit_try_transport: "rate_limit_try Transport_failure = Inl ConnectionError"
  by (simp add: rate_limit_try_def)

lemma check_rate_limits_raised:
  "rate_limit_try (env (calls w)) = Inl e \<Longrightarrow>
   check_rate_limits env w = ((JNull, JNull), w @ [Http_get_key, Notice (Rate_limit_error e)])"
  by (simp add: check_rate_limits_def requests_get_def)

lemma check_rate_limits_else:
  "rate_limit_try (env (calls w)) = Inr None \<Longrightarrow>
   check_rate_limits env w = ((JNull, JNull), w @ [Http_get_key, Notice Rate_limit_failed])"
  by (simp add: check_rate_limits_def requests_get_def)

lemma check_rate_limits_pair:
  "rate_limit_try (env (calls w)) = Inr (Some p) \<Longrightarrow>
   check_rate_limits env w = (p, w @ [Http_get_key])"
  by (simp add: check_rate_limits_def requests_get_def)

lemma check_rate_limits_passed:
  "fst (fst (check_rate_limits env w)) \<noteq> JNull \<Longrightarrow>
   snd (check_rate_limits env w) = w @ [Http_get_key]"
  by (auto simp: check_rate_limits_def requests_get_def split: sum.splits option.splits)

lemma posts_check_rate_limits: "posts (snd (check_rate_limits env w)) = posts w"
  by (auto simp: check_rate_limits_def requests_get_def split: sum.splits option.splits)

lemma main_upload:
  "logged_in s \<Longrightarrow> uploaded_file pg = Some file \<Longrightarrow> search_term pg \<noteq> [] \<Longrightarrow>
   main sec lib env pg s w =
     (case main_try lib env file (search_term pg) (analyze_clicked pg) s w of
        (Raised e, s1, w1) \<Rightarrow>
          if logout_clicked pg
          then (s1\<lparr>logged_in := False, results := None\<rparr>, w1 @ [Notice (File_error e)])
          else (s1, w1 @ [Notice (File_error e)])
      | (Returned, s1, w1) \<Rightarrow> (s1, w1)
      | (Completed, s1, w1) \<Rightarrow>
          if logout_clicked pg then (s1\<lparr>logged_in := False, results := None\<rparr>, w1)
          else (s1, w1))"
  by (simp add: main_def split: prod.splits ending.splits)

lemma main_try_gated:
  "json_to_dataframe lib doc = Inr df \<Longrightarrow>
   fst (fst (check_rate_limits env (w @ [Write_df df]))) = JNull \<Longrightarrow>
   main_try lib env (Decodes doc) topic True s w =
     (Returned, s, snd (check_rate_limits env (w @ [Write_df df])))"
  by (cases "check_rate_limits env (w @ [Write_df df])")
     (auto simp: main_try_def json_load_def)

lemma main_gated:
  "logged_in s \<Longrightarrow> uploaded_file pg = Some (Decodes doc) \<Longrightarrow> search_term pg \<noteq> [] \<Longrightarrow>
   analyze_clicked pg \<Longrightarrow> json_to_dataframe lib doc = Inr df \<Longrightarrow>
   fst (fst (check_rate_limits env (w @ [Write_df df]))) = JNull \<Longrightarrow>
   main sec lib env pg s w = (s, snd (check_rate_limits env (w @ [Write_df df])))"
  by (simp add: main_upload main_try_gated)

lemma process_dataframe_returns:
  "\<forall>row\<in>set df. record_of row \<noteq> None \<Longrightarrow>
   \<exists>rs w1. process_dataframe lib env df topic w = (Inr rs, w1)"
proof -
  assume "\<forall>row\<in>set df. record_of row \<noteq> None"
  from process_rows_run [OF this, of w env lib topic 0 "[]"]
  show ?thesis by (auto simp: process_dataframe_def)
qed

lemma main_try_never_raises:
  "json_to_dataframe lib doc = Inr df \<Longrightarrow> \<forall>row\<in>set df. record_of row \<noteq> None \<Longrightarrow>
   fst (main_try lib env (Decodes doc) topic clicked s w) \<noteq> Raised e"
proof -
  assume df: "json_to_dataframe lib doc = Inr df" and wf: "\<forall>row\<in>set df. record_of row \<noteq> None"
  obtain p w2 where c: "check_rate_limits env (w @ [Write_df df]) = (p, w2)"
    by (cases "check_rate_limits env (w @ [Write_df df])") auto
  obtain rs w3 where pr: "process_dataframe lib env df topic w2 = (Inr rs, w3)"
    using process_dataframe_returns [OF wf] by blast
  show ?thesis
    using df c pr by (cases p) (simp add: main_try_def json_load_def Let_def)
qed

lemma json_to_dataframe_empty:
  "json_normalize lib (JArr []) = Inr [] \<Longrightarrow>
   map_of kvs ''organic_results'' = None \<or> map_of kvs ''organic_results'' = Some (JArr []) \<Longrightarrow>
   json_to_dataframe lib (JObj kvs) = Inr []"
  by (auto simp: json_to_dataframe_def get_organic_results_def and_then_def)

lemma main_try_empty:
  "json_to_dataframe lib doc = Inr [] \<Longrightarrow>
   fst (fst (check_rate_limits env (w @ [Write_df []]))) \<noteq> JNull \<Longrightarrow>
   main_try lib env (Decodes doc) topic True s w =
     (Completed, s\<lparr>results := Some []\<rparr>,
      w @ [Write_df [], Http_get_key, Notice (Analysis_complete 0), Download_csv []])"
proof -
  assume df: "json_to_dataframe lib doc = Inr []"
    and p: "fst (fst (check_rate_limits env (w @ [Write_df []]))) \<noteq> JNull"
  obtain a b w2 where c: "check_rate_limits env (w @ [Write_df []]) = ((a, b), w2)"
    by (cases "check_rate_limits env (w @ [Write_df []])") auto
  with p have a: "a \<noteq> JNull" by simp
  from check_rate_limits_passed [OF p] c have w2: "w2 = w @ [Write_df [], Http_get_key]"
    by simp
  show ?thesis
    using df c a w2
    by (simp add: main_try_def json_load_def process_dataframe_def show_results_def)
qed

lemma json_to_dataframe_not_object:
  "\<forall>kvs. j \<noteq> JObj kvs \<Longrightarrow> json_to_dataframe lib j = Inl AttributeError"
  by (cases j) (simp_all add: json_to_dataframe_def get_organic_results_def and_then_def)

lemma process_rows_missing_column:
  "record_of row = None \<Longrightarrow>
   process_rows lib env topic idx (row # rest) acc w = (Inl KeyError, w)"
  by (auto simp: record_of_def column_def split: option.splits)

lemma main_try_missing_column:
  "json_to_dataframe lib doc = Inr (row # rest) \<Longrightarrow> record_of row = None \<Longrightarrow>
   fst (fst (check_rate_limits env (w @ [Write_df (row # rest)]))) \<noteq> JNull \<Longrightarrow>
   main_try lib env (Decodes doc) topic True s w =
     (Raised KeyError, s, w @ [Write_df (row # rest), Http_get_key])"
proof -
  assume df: "json_to_dataframe lib doc = Inr (row # rest)" and r: "record_of row = None"
    and p: "fst (fst (check_rate_limits env (w @ [Write_df (row # rest)]))) \<noteq> JNull"
  obtain a b w2 where c: "check_rate_limits env (w @ [Write_df (row # rest)]) = ((a, b), w2)"
    by (cases "check_rate_limits env (w @ [Write_df (row # rest)])") auto
  with p have a: "a \<noteq> JNull" by simp
  from check_rate_limits_passed [OF p] c
  have w2: "w2 = w @ [Write_df (row # rest), Http_get_key]" by simp
  show ?thesis
    using df c a w2 process_rows_missing_column [OF r, of lib env topic 0 rest "[]" w2]
    by (simp add: main_try_def json_load_def process_dataframe_def)
qed

lemma main_try_raises_early:
  "json_load up = Inl e \<or> (\<exists>doc. up = Decodes doc \<and> json_to_dataframe lib doc = Inl e) \<Longrightarrow>
   main_try lib env up topic clicked s w = (Raised e, s, w)"
  by (cases up) (auto simp: main_try_def json_load_def)

section \<open>Evaluating the concrete runs\<close>

lemma all_less_5: "(\<forall>i<5::nat. P i) \<longleftrightarrow> P 0 \<and> P 1 \<and> P 2 \<and> P 3 \<and> P 4"
proof -
  have "\<And>i::nat. i < 5 \<longleftrightarrow> i = 0 \<or> i = 1 \<or> i = 2 \<or> i = 3 \<or> i = 4" by arith
  then show ?thesis by metis
qed

lemma upt_0_5: "[0..<5] = [0, 1, 2, 3, 4]"
  by (simp add: upt_rec)


lemma list_of_two: "length xs = 2 \<Longrightarrow> xs = [xs ! 0, xs ! 1]"
  by (cases xs; cases "tl xs") auto

lemma first_call_fails_at_start:
  "analyze_ad_copy first_call_fails ad topic [] =
     (Inr None, [Http_post ad topic (prompts ! 0), Notice (Analyze_error ConnectionError)])"
  by (simp add: analyze_ad_copy_loop prompts_def requests_post_def first_call_fails_def
      prompt_try_def)

lemma first_call_fails_later:
  "calls w = 1 \<Longrightarrow>
   fst (analyze_ad_copy first_call_fails ad topic w) =
     Inr (Some (''fine'' @ blank_line @ ''fine'' @ blank_line @ ''fine'' @ blank_line @
                ''fine'' @ blank_line @ ''fine'' @ blank_line))"
proof -
  assume c: "calls w = 1"
  let ?ts = "[''fine'', ''fine'', ''fine'', ''fine'', ''fine'']"
  have "\<forall>i<length prompts. prompt_try (first_call_fails (calls w + i)) = Inr (?ts ! i)"
    unfolding length_prompts all_less_5
    by (simp add: c first_call_fails_def prompt_try_chat_reply)
  with prompt_loop_ok [of ?ts prompts first_call_fails w ad topic "[]"]
  show ?thesis by (simp add: analyze_ad_copy_loop length_prompts)
qed

lemma json_to_dataframe_widgets: "json_to_dataframe example_library widgets = Inr widgets_df"
  by (simp add: json_to_dataframe_def get_organic_results_def widgets_def and_then_def
      example_library_def widgets_df_def)

lemma rate_limit_pair_key_reply: "rate_limit_pair key_reply = Some (JNum 200, JStr ''10s'')"
  by (simp add: rate_limit_pair_def key_reply_def)

lemma json_to_dataframe_no_snippet:
  "json_to_dataframe example_library no_snippet = Inr no_snippet_df"
  by (simp add: json_to_dataframe_def get_organic_results_def no_snippet_def and_then_def
      example_library_def no_snippet_df_def)

section \<open>The claims\<close>

subsection \<open>C1\<close>

text \<open>
  C1 (the retry policy of analyze). The decorator retries the whole function on a
  \<open>RequestException\<close> that leaves it, up to 3 attempts; but every exception of a prompt
  call is caught by the \<open>except Exception\<close> inside the loop, so none leaves the function:
  for every service the decorated function does what its body does once. When the first
  POST fails at transport level (connection error, timeout), analyze returns absent after
  that one POST: no second attempt, no backoff sleep.
\<close>

theorem one_attempt_on_transport_failure:
  "analyze_ad_copy env ad topic w = analyze_ad_copy_body env ad topic w \<and>
   analyze_ad_copy unreachable ad topic [] =
     (Inr None, [Http_post ad topic (prompts ! 0), Notice (Analyze_error ConnectionError)])"
proof
  show "analyze_ad_copy env ad topic w = analyze_ad_copy_body env ad topic w"
    by (simp only: analyze_ad_copy_def retry_returns)
  show "analyze_ad_copy unreachable ad topic [] =
     (Inr None, [Http_post ad topic (prompts ! 0), Notice (Analyze_error ConnectionError)])"
    by (simp add: analyze_ad_copy_loop prompts_def requests_post_def unreachable_def
        prompt_try_def)
qed

subsection \<open>C2\<close>

text \<open>
  C2 (one row per succeeded record). For a table whose K rows all have the title, snippet
  and displayed_link columns, and for any answers of the service, the batch processor
  returns normally, and its run is fixed record by record: \<open>ws ! 0\<close> is the trace it
  starts from; analyze is called for record i at the trace \<open>ws ! i\<close>, \<open>outs ! i\<close> is what
  it returns there, and \<open>ws ! (i + 1)\<close> is the trace it leaves, followed by the
  notification for record i and the sleep. The result sequence is exactly the rows
  \<open>result_for row out\<close> of the records whose result is present, in input order, and the
  final trace is \<open>ws ! K\<close>. Its length is the number of succeeded records, at most K; a
  record whose result is absent contributes no row, and every row carries the fields of
  its own record and the text analyze returned for it.
\<close>

theorem process_dataframe_one_row_per_success:
  "\<forall>row\<in>set df. record_of row \<noteq> None \<Longrightarrow>
   \<exists>outs ws. length outs = length df \<and> length ws = Suc (length df) \<and> ws ! 0 = w \<and>
     (\<forall>i<length df.
        fst (analyze_ad_copy env (ad_copy_for lib (df ! i)) topic (ws ! i)) = Inr (outs ! i) \<and>
        ws ! Suc i =
          snd (analyze_ad_copy env (ad_copy_for lib (df ! i)) topic (ws ! i)) @
            [Notice (record_notice i (outs ! i)), Sleep 1]) \<and>
     process_dataframe lib env df topic w =
       (Inr (List.map_filter (\<lambda>(row, out). result_for row out) (zip df outs)),
        ws ! length df) \<and>
     length (List.map_filter (\<lambda>(row, out). result_for row out) (zip df outs)) =
       length (filter (\<lambda>out. out \<noteq> None) outs) \<and>
     length (List.map_filter (\<lambda>(row, out). result_for row out) (zip df outs)) \<le> length df"
proof -
  assume wf: "\<forall>row\<in>set df. record_of row \<noteq> None"
  from process_rows_run [OF wf, of w env lib topic 0 "[]"] obtain outs ws where
    ih: "length outs = length df" "length ws = Suc (length df)" "ws ! 0 = w"
      "\<forall>i<length df.
        fst (analyze_ad_copy env (ad_copy_for lib (df ! i)) topic (ws ! i)) = Inr (outs ! i) \<and>
        ws ! Suc i =
          snd (analyze_ad_copy env (ad_copy_for lib (df ! i)) topic (ws ! i)) @
            [Notice (record_notice (0 + i) (outs ! i)), Sleep 1]"
      "process_rows lib env topic 0 df [] w =
        (Inr ([] @ List.map_filter (\<lambda>(row, out). result_for row out) (zip df outs)),
         ws ! length df)"
    by blast
  have n: "length (List.map_filter (\<lambda>(row, out). result_for row out) (zip df outs)) =
       length (filter (\<lambda>out. out \<noteq> None) outs)"
    using length_results_succeeded [OF ih(1) wf] .
  have le: "length (filter (\<lambda>out. out \<noteq> None) outs) \<le> length df"
    using ih(1) length_filter_le [of "\<lambda>out. out \<noteq> None" outs] by simp
  have p: "process_dataframe lib env df topic w =
       (Inr (List.map_filter (\<lambda>(row, out). result_for row out) (zip df outs)),
        ws ! length df)"
    using ih(5) by (simp add: process_dataframe_def)
  from ih(4) have a: "\<forall>i<length df.
        fst (analyze_ad_copy env (ad_copy_for lib (df ! i)) topic (ws ! i)) = Inr (outs ! i) \<and>
        ws ! Suc i =
          snd (analyze_ad_copy env (ad_copy_for lib (df ! i)) topic (ws ! i)) @
            [Notice (record_notice i (outs ! i)), Sleep 1]"
    by simp
  from ih(1,2,3) a p n le show ?thesis by (intro exI [of _ outs] exI [of _ ws]) simp
qed

text \<open>
  C2 at a table of two records, with a service whose first exchange fails at transport
  level: record A is dropped, and the result is the row of record B alone.
\<close>

theorem process_dataframe_one_row_per_success_witness:
  "list_all (\<lambda>row. record_of row \<noteq> None) two_ads_df \<and>
   fst (process_dataframe example_library first_call_fails two_ads_df ''widgets'' []) =
     Inr [\<lparr>title = Cell (JStr ''B''), snippet = Cell (JStr ''second''),
           displayed_link = Cell (JStr ''b.com''),
           analysis = ''fine'' @ blank_line @ ''fine'' @ blank_line @ ''fine'' @ blank_line @
                      ''fine'' @ blank_line @ ''fine'' @ blank_line\<rparr>]"
proof -
  let ?A = "ad_copy_for example_library (two_ads_df ! 0)"
  let ?B = "ad_copy_for example_library (two_ads_df ! 1)"
  let ?T = "''fine'' @ blank_line @ ''fine'' @ blank_line @ ''fine'' @ blank_line @
            ''fine'' @ blank_line @ ''fine'' @ blank_line"
  have wf: "\<forall>row\<in>set two_ads_df. record_of row \<noteq> None"
    by (simp add: two_ads_df_def record_of_def)
  have len: "length two_ads_df = 2" by (simp add: two_ads_df_def)
  from process_dataframe_one_row_per_success
    [OF wf, of "[]" first_call_fails example_library "''widgets''"]
  obtain outs ws where
    l: "length outs = length two_ads_df" and w0: "ws ! 0 = []"
    and step: "\<forall>i<length two_ads_df.
        fst (analyze_ad_copy first_call_fails (ad_copy_for example_library (two_ads_df ! i))
          ''widgets'' (ws ! i)) = Inr (outs ! i) \<and>
        ws ! Suc i =
          snd (analyze_ad_copy first_call_fails (ad_copy_for example_library (two_ads_df ! i))
            ''widgets'' (ws ! i)) @ [Notice (record_notice i (outs ! i)), Sleep 1]"
    and res: "process_dataframe example_library first_call_fails two_ads_df ''widgets'' [] =
       (Inr (List.map_filter (\<lambda>(row, out). result_for row out) (zip two_ads_df outs)),
        ws ! length two_ads_df)"
    by blast
  have "(0::nat) < length two_ads_df" using len by simp
  with step have s0:
      "fst (analyze_ad_copy first_call_fails ?A ''widgets'' (ws ! 0)) = Inr (outs ! 0)"
      "ws ! Suc 0 = snd (analyze_ad_copy first_call_fails ?A ''widgets'' (ws ! 0)) @
         [Notice (record_notice 0 (outs ! 0)), Sleep 1]"
    by blast+
  have "(1::nat) < length two_ads_df" using len by simp
  with step have s1:
      "fst (analyze_ad_copy first_call_fails ?B ''widgets'' (ws ! 1)) = Inr (outs ! 1)"
    by blast
  have o0: "outs ! 0 = None"
    using s0(1) by (simp add: w0 first_call_fails_at_start)
  have "calls (ws ! 1) = 1"
    using s0(2) by (simp add: w0 first_call_fails_at_start)
  then have o1: "outs ! 1 = Some ?T"
    using s1 first_call_fails_later [of "ws ! 1" ?B "''widgets''"] by simp
  have "outs = [None, Some ?T]"
    using list_of_two [of outs] l len o0 o1 by simp
  with res have "fst (process_dataframe example_library first_call_fails two_ads_df
      ''widgets'' []) =
    Inr [\<lparr>title = Cell (JStr ''B''), snippet = Cell (JStr ''second''),
          displayed_link = Cell (JStr ''b.com''), analysis = ?T\<rparr>]"
    by (simp add: two_ads_df_def result_for_def record_of_def)
  with wf show ?thesis unfolding list_all_iff by blast
qed

subsection \<open>C3\<close>

text \<open>
  C3 as stated fails: a response with a status that is not 2xx but is no error status
  (here 300, which the HTTP client hands over with its body), and with a body of the
  expected shape, is not a failure for analyze. All five texts are returned.
\<close>

theorem analyze_accepts_status_300:
  "multiple_choices 0 = Response 300 (Some (chat_reply ''fine'')) \<and>
   receivable (multiple_choices 0) \<and>
   fst (analyze_ad_copy multiple_choices ''ad'' ''widgets'' []) =
     Inr (Some (''fine'' @ blank_line @ ''fine'' @ blank_line @ ''fine'' @ blank_line @
                ''fine'' @ blank_line @ ''fine'' @ blank_line))"
  by (simp add: analyze_ad_copy_loop prompts_def requests_post_def multiple_choices_def
      prompt_try_chat_reply receivable_def bodyless_def)

text \<open>
  C3, amended. analyze returns absent for the whole record exactly when one of the five
  prompt calls fails, where a call fails when it raises a transport-level exception, is
  answered with a 4xx or 5xx status, or is answered with a body that is not JSON or lacks
  the expected shape. The text accumulated before the failure is not returned.
\<close>

theorem analyze_absent_iff_failure:
  "fst (analyze_ad_copy env ad topic w) = Inr None \<longleftrightarrow>
     (\<exists>k<5. failed_call (env (calls w + k)))"
proof
  assume r: "fst (analyze_ad_copy env ad topic w) = Inr None"
  show "\<exists>k<5. failed_call (env (calls w + k))"
  proof (rule ccontr)
    assume "\<not> (\<exists>k<5. failed_call (env (calls w + k)))"
    then have "\<forall>i<5. \<not> failed_call (env (calls w + i))" by blast
    then obtain ts where "length ts = 5" "\<forall>i<5. prompt_try (env (calls w + i)) = Inr (ts ! i)"
      using all_succeed_texts [of 5 env "calls w"] by blast
    with prompt_loop_ok [of ts prompts env w ad topic "[]"] r show False
      by (simp add: analyze_ad_copy_loop length_prompts)
  qed
next
  assume "\<exists>k<5. failed_call (env (calls w + k))"
  then obtain j where "j < 5" "\<forall>i<j. \<not> failed_call (env (calls w + i))"
      "failed_call (env (calls w + j))"
    using first_failure [of _ 5 env "calls w"] by blast
  with prompt_loop_fail [of j prompts env w ad topic "[]"]
  show "fst (analyze_ad_copy env ad topic w) = Inr None"
    by (simp add: analyze_ad_copy_loop length_prompts)
qed

text \<open>
  C3, amended, at a service that answers the third prompt call with status 500.
\<close>

theorem analyze_absent_iff_failure_witness:
  "failed_call (third_fails (calls [] + 2)) \<and>
   fst (analyze_ad_copy third_fails ''ad'' ''widgets'' []) = Inr None"
proof -
  have f: "failed_call (third_fails (calls [] + 2))"
    by (simp add: third_fails_def failed_call_def)
  then have "\<exists>k<5. failed_call (third_fails (calls [] + k))"
    by (intro exI [of _ 2]) simp
  with f show ?thesis
    using analyze_absent_iff_failure [of third_fails "''ad''" "''widgets''" "[]"] by blast
qed

subsection \<open>C4\<close>



subsection \<open>C5\<close>

text \<open>
  C5 as stated fails: the account-status endpoint answers HTTP 200 with a body that lacks
  \<open>data\<close>, and the probe returns (absent, absent) after an error message.
\<close>

theorem probe_absent_on_status_200:
  "empty_key_body 0 = Response 200 (Some (JObj [])) \<and>
   check_rate_limits empty_key_body [] =
     ((JNull, JNull), [Http_get_key, Notice (Rate_limit_error KeyError)])"
  by (simp add: check_rate_limits_def requests_get_def empty_key_body_def rate_limit_try_def
      response_json_def and_then_def)

text \<open>
  C5, amended. The probe returns the pair (requests, interval) of the body when the
  endpoint answers HTTP 200 with a body of the \<open>data.rate_limit\<close> shape; it returns
  (absent, absent) on a transport failure, on any status other than 200, and on a 200
  answer whose body is not JSON or lacks that shape. Whenever the first component of the
  probe is absent, \<open>main\<close> returns at once: the session keeps its results, the only
  events after the table display are the probe's, and no POST is made.
\<close>

theorem probe_pair_or_gate:
  "(env (calls w) = Response 200 (Some j) \<and> rate_limit_pair j = Some p \<longrightarrow>
      fst (check_rate_limits env w) = p) \<and>
   (env (calls w) = Transport_failure \<or>
    (\<exists>status body. env (calls w) = Response status body \<and> status \<noteq> 200) \<or>
    env (calls w) = Response 200 None \<or>
    (\<exists>j. env (calls w) = Response 200 (Some j) \<and> rate_limit_pair j = None) \<longrightarrow>
      fst (check_rate_limits env w) = (JNull, JNull)) \<and>
   (logged_in s \<and> uploaded_file pg = Some (Decodes doc) \<and> search_term pg \<noteq> [] \<and>
    analyze_clicked pg \<and> json_to_dataframe lib doc = Inr df \<and>
    fst (fst (check_rate_limits env (v @ [Write_df df]))) = JNull \<longrightarrow>
      main sec lib env pg s v = (s, snd (check_rate_limits env (v @ [Write_df df]))) \<and>
      posts (snd (main sec lib env pg s v)) = posts v)"
proof (intro conjI impI)
  assume "env (calls w) = Response 200 (Some j) \<and> rate_limit_pair j = Some p"
  then show "fst (check_rate_limits env w) = p"
    by (simp add: check_rate_limits_pair rate_limit_try_shape)
next
  assume a: "env (calls w) = Transport_failure \<or>
    (\<exists>status body. env (calls w) = Response status body \<and> status \<noteq> 200) \<or>
    env (calls w) = Response 200 None \<or>
    (\<exists>j. env (calls w) = Response 200 (Some j) \<and> rate_limit_pair j = None)"
  then consider (transport) "env (calls w) = Transport_failure"
    | (status) status body where "env (calls w) = Response status body" "status \<noteq> 200"
    | (not_json) "env (calls w) = Response 200 None"
    | (shape) j where "env (calls w) = Response 200 (Some j)" "rate_limit_pair j = None"
    by blast
  then show "fst (check_rate_limits env w) = (JNull, JNull)"
  proof cases
    case transport
    then show ?thesis by (simp add: check_rate_limits_raised rate_limit_try_transport)
  next
    case status
    then show ?thesis by (simp add: check_rate_limits_else rate_limit_try_other_status)
  next
    case not_json
    then show ?thesis by (simp add: check_rate_limits_raised rate_limit_try_not_json)
  next
    case shape
    then obtain e where "rate_limit_try (env (calls w)) = Inl e"
      using rate_limit_try_no_shape by force
    then show ?thesis by (simp add: check_rate_limits_raised)
  qed
next
  assume a: "logged_in s \<and> uploaded_file pg = Some (Decodes doc) \<and> search_term pg \<noteq> [] \<and>
    analyze_clicked pg \<and> json_to_dataframe lib doc = Inr df \<and>
    fst (fst (check_rate_limits env (v @ [Write_df df]))) = JNull"
  then show m: "main sec lib env pg s v = (s, snd (check_rate_limits env (v @ [Write_df df])))"
    by (simp add: main_gated)
  show "posts (snd (main sec lib env pg s v)) = posts v"
    by (simp add: m posts_check_rate_limits)
qed

text \<open>
  C5, amended, at a service that answers the probe with a well-formed body, and at one
  that answers it with status 503.
\<close>

theorem probe_pair_or_gate_witness:
  "healthy (calls []) = Response 200 (Some key_reply) \<and>
   rate_limit_pair key_reply = Some (JNum 200, JStr ''10s'') \<and>
   fst (check_rate_limits healthy []) = (JNum 200, JStr ''10s'') \<and>
   probe_refused (calls [Write_df widgets_df]) = Response 503 None \<and>
   fst (check_rate_limits probe_refused [Write_df widgets_df]) = (JNull, JNull) \<and>
   main demo_secrets example_library probe_refused (analyze_page (Decodes widgets)) signed_in [] =
     (signed_in, snd (check_rate_limits probe_refused [Write_df widgets_df])) \<and>
   posts (snd (main demo_secrets example_library probe_refused
     (analyze_page (Decodes widgets)) signed_in [])) = 0"
proof -
  have h: "healthy (calls []) = Response 200 (Some key_reply)"
    by (simp add: healthy_def)
  have r: "probe_refused (calls [Write_df widgets_df]) = Response 503 None"
    by (simp add: probe_refused_def)
  note a = probe_pair_or_gate [where env = healthy and w = "[]" and j = key_reply
      and p = "(JNum 200, JStr ''10s'')", THEN conjunct1]
  have 1: "fst (check_rate_limits healthy []) = (JNum 200, JStr ''10s'')"
    using a h rate_limit_pair_key_reply by blast
  note b = probe_pair_or_gate [where env = probe_refused and w = "[Write_df widgets_df]"
      and s = signed_in and pg = "analyze_page (Decodes widgets)" and doc = widgets
      and lib = example_library and df = widgets_df and v = "[]" and sec = demo_secrets]
  have "\<exists>status body. probe_refused (calls [Write_df widgets_df]) = Response status body \<and>
      status \<noteq> 200"
    using r by simp
  then have 2: "fst (check_rate_limits probe_refused [Write_df widgets_df]) = (JNull, JNull)"
    using b [THEN conjunct2, THEN conjunct1] by blast
  have pre: "logged_in signed_in \<and>
      uploaded_file (analyze_page (Decodes widgets)) = Some (Decodes widgets) \<and>
      search_term (analyze_page (Decodes widgets)) \<noteq> [] \<and>
      analyze_clicked (analyze_page (Decodes widgets)) \<and>
      json_to_dataframe example_library widgets = Inr widgets_df \<and>
      fst (fst (check_rate_limits probe_refused ([] @ [Write_df widgets_df]))) = JNull"
    using 2 by (simp add: signed_in_def analyze_page_def json_to_dataframe_widgets)
  have 3: "main demo_secrets example_library probe_refused (analyze_page (Decodes widgets))
        signed_in [] = (signed_in, snd (check_rate_limits probe_refused ([] @ [Write_df widgets_df]))) \<and>
      posts (snd (main demo_secrets example_library probe_refused
        (analyze_page (Decodes widgets)) signed_in [])) = posts []"
    using b [THEN conjunct2, THEN conjunct2] pre by blast
  from h rate_limit_pair_key_reply 1 r 2 3 show ?thesis
    by (simp add: posts_check_rate_limits)
qed

subsection \<open>C6\<close>

text \<open>
  C6 as stated fails: the first of five non-empty response texts has two paragraphs. The
  analysis then has six non-empty segments separated by blank lines, and it ends with a
  blank line, so it is not the five texts joined by blank lines either.
\<close>

theorem analysis_with_six_segments:
  "fst (analyze_ad_copy two_paragraphs ''ad'' ''widgets'' []) =
     Inr (Some (''a'' @ blank_line @ ''b'' @ blank_line @ ''c'' @ blank_line @ ''c'' @
                blank_line @ ''c'' @ blank_line @ ''c'' @ blank_line)) \<and>
   segments (''a'' @ blank_line @ ''b'' @ blank_line @ ''c'' @ blank_line @ ''c'' @
             blank_line @ ''c'' @ blank_line @ ''c'' @ blank_line) =
     [''a'', ''b'', ''c'', ''c'', ''c'', ''c''] \<and>
   (''a'' @ blank_line @ ''b'' @ blank_line @ ''c'' @ blank_line @ ''c'' @
      blank_line @ ''c'' @ blank_line @ ''c'' @ blank_line) \<noteq>
     join_blank [''a'' @ blank_line @ ''b'', ''c'', ''c'', ''c'', ''c'']"
  by (simp add: analyze_ad_copy_loop prompts_def requests_post_def two_paragraphs_def
      prompt_try_chat_reply segments_def blank_line_def)

text \<open>
  C6, amended. When the five prompt calls succeed with the texts \<open>ts\<close>, the analysis is
  the five texts in prompt order, each followed by a blank line, the last one too. When
  moreover every text is non-empty and contains no newline, the non-empty segments of the
  analysis separated by blank lines are exactly the five texts, in prompt order.
\<close>

theorem analysis_texts_each_followed_by_blank_line:
  "length ts = 5 \<Longrightarrow> (\<forall>i<5. prompt_try (env (calls w + i)) = Inr (ts ! i)) \<Longrightarrow>
   fst (analyze_ad_copy env ad topic w) = Inr (Some (join_blank ts @ blank_line)) \<and>
   ((\<forall>t\<in>set ts. t \<noteq> [] \<and> CHR 0x0A \<notin> set t) \<longrightarrow>
      segments (join_blank ts @ blank_line) = ts)"
proof -
  assume l: "length ts = 5" and a: "\<forall>i<5. prompt_try (env (calls w + i)) = Inr (ts ! i)"
  from l have ne: "ts \<noteq> []" by auto
  from prompt_loop_ok [of ts prompts env w ad topic "[]"] l a
  have "fst (analyze_ad_copy env ad topic w) = Inr (Some (join_blank ts @ blank_line))"
    by (simp add: analyze_ad_copy_loop length_prompts concat_join_blank [OF ne])
  moreover have "(\<forall>t\<in>set ts. t \<noteq> [] \<and> CHR 0x0A \<notin> set t) \<longrightarrow>
      segments (join_blank ts @ blank_line) = ts"
    using segments_texts [of ts] concat_join_blank [OF ne] by simp
  ultimately show ?thesis by blast
qed

text \<open>
  C6, amended, at a service that answers the five prompts with five one-line texts.
\<close>

theorem analysis_texts_each_followed_by_blank_line_witness:
  "length [''h'', ''d'', ''c'', ''r'', ''s''] = 5 \<and>
   map (\<lambda>i. prompt_try (one_line_each (calls [] + i))) [0..<5] =
     map Inr [''h'', ''d'', ''c'', ''r'', ''s''] \<and>
   fst (analyze_ad_copy one_line_each ''ad'' ''widgets'' []) =
     Inr (Some (join_blank [''h'', ''d'', ''c'', ''r'', ''s''] @ blank_line)) \<and>
   segments (join_blank [''h'', ''d'', ''c'', ''r'', ''s''] @ blank_line) =
     [''h'', ''d'', ''c'', ''r'', ''s'']"
proof -
  let ?ts = "[''h'', ''d'', ''c'', ''r'', ''s'']"
  have l: "length ?ts = 5" by simp
  have a: "\<forall>i<5. prompt_try (one_line_each (calls [] + i)) = Inr (?ts ! i)"
    unfolding all_less_5 by (simp add: one_line_each_def prompt_try_chat_reply)
  have n: "\<forall>t\<in>set ?ts. t \<noteq> [] \<and> CHR 0x0A \<notin> set t" by simp
  have m: "map (\<lambda>i. prompt_try (one_line_each (calls [] + i))) [0..<5] = map Inr ?ts"
    unfolding upt_0_5 by (simp add: one_line_each_def prompt_try_chat_reply)
  from analysis_texts_each_followed_by_blank_line [OF l a, of "''ad''" "''widgets''"] n l m
  show ?thesis by blast
qed

subsection \<open>C7\<close>

text \<open>
  C7 as stated fails: the uploaded document \<open>{}\<close> has no \<open>organic_results\<close> list, yet
  the run is not aborted. No error message is shown; the run ends with the success
  message for 0 ads.
\<close>

theorem empty_object_upload_is_no_abort:
  "main demo_secrets example_library healthy (analyze_page (Decodes (JObj []))) signed_in [] =
     (signed_in\<lparr>results := Some []\<rparr>,
      [Write_df [], Http_get_key, Notice (Analysis_complete 0), Download_csv []])"
  by (simp add: main_def analyze_page_def signed_in_def main_try_def json_load_def
      json_to_dataframe_def get_organic_results_def and_then_def example_library_def
      check_rate_limits_def requests_get_def healthy_def rate_limit_try_def response_json_def
      key_reply_def process_dataframe_def show_results_def)

text \<open>
  C7, amended. An upload that is not JSON raises on decoding, and a document whose top
  level is not an object raises in \<open>json_to_dataframe\<close>. Whenever decoding or building
  the record table raises, the run is aborted: the only event is the error message, no
  HTTP call is made and the session is unchanged. When the record table lacks one of the
  three columns (its first row has no such cell) and the probe has passed, the run is
  aborted with the error message before any chat call, and the session is unchanged. A
  top-level object whose \<open>organic_results\<close> is absent or empty is an empty batch: the
  body of \<open>main\<close> does not raise on it. And when every row of the record table has the
  three columns, nothing the service answers makes the body of \<open>main\<close> raise: no
  failure of a prompt call or of the probe ends the run with the abort message.
\<close>

theorem malformed_upload_aborts:
  "json_load Not_json = Inl JSONDecodeError \<and>
   ((\<forall>kvs. j \<noteq> JObj kvs) \<longrightarrow> json_to_dataframe lib j = Inl AttributeError) \<and>
   (logged_in s \<and> uploaded_file pg = Some up \<and> search_term pg \<noteq> [] \<and>
    \<not> logout_clicked pg \<and>
    (json_load up = Inl e \<or> (\<exists>doc. up = Decodes doc \<and> json_to_dataframe lib doc = Inl e)) \<longrightarrow>
      main sec lib env pg s w = (s, w @ [Notice (File_error e)])) \<and>
   (logged_in s \<and> uploaded_file pg = Some (Decodes doc) \<and> search_term pg \<noteq> [] \<and>
    analyze_clicked pg \<and> \<not> logout_clicked pg \<and>
    json_to_dataframe lib doc = Inr (row # rest) \<and> record_of row = None \<and>
    fst (fst (check_rate_limits env (w @ [Write_df (row # rest)]))) \<noteq> JNull \<longrightarrow>
      main sec lib env pg s w =
        (s, w @ [Write_df (row # rest), Http_get_key, Notice (File_error KeyError)])) \<and>
   (json_normalize lib (JArr []) = Inr [] \<and>
    (map_of kvs ''organic_results'' = None \<or>
     map_of kvs ''organic_results'' = Some (JArr [])) \<longrightarrow>
      (\<forall>x. fst (main_try lib env (Decodes (JObj kvs)) topic clicked s w) \<noteq> Raised x)) \<and>
   (json_to_dataframe lib good = Inr df \<and> (\<forall>r\<in>set df. record_of r \<noteq> None) \<longrightarrow>
      (\<forall>x. fst (main_try lib env (Decodes good) topic clicked s w) \<noteq> Raised x))"
proof (intro conjI impI)
  show "json_load Not_json = Inl JSONDecodeError" by (simp add: json_load_def)
next
  assume "\<forall>kvs. j \<noteq> JObj kvs"
  then show "json_to_dataframe lib j = Inl AttributeError"
    by (rule json_to_dataframe_not_object)
next
  assume a: "logged_in s \<and> uploaded_file pg = Some up \<and> search_term pg \<noteq> [] \<and>
    \<not> logout_clicked pg \<and>
    (json_load up = Inl e \<or> (\<exists>doc. up = Decodes doc \<and> json_to_dataframe lib doc = Inl e))"
  then have "main_try lib env up (search_term pg) (analyze_clicked pg) s w = (Raised e, s, w)"
    using main_try_raises_early [of up e lib] by blast
  with a show "main sec lib env pg s w = (s, w @ [Notice (File_error e)])"
    by (simp add: main_upload)
next
  assume a: "logged_in s \<and> uploaded_file pg = Some (Decodes doc) \<and> search_term pg \<noteq> [] \<and>
    analyze_clicked pg \<and> \<not> logout_clicked pg \<and>
    json_to_dataframe lib doc = Inr (row # rest) \<and> record_of row = None \<and>
    fst (fst (check_rate_limits env (w @ [Write_df (row # rest)]))) \<noteq> JNull"
  then have "main_try lib env (Decodes doc) (search_term pg) True s w =
      (Raised KeyError, s, w @ [Write_df (row # rest), Http_get_key])"
    using main_try_missing_column [of lib doc row rest env w] by blast
  with a show "main sec lib env pg s w =
      (s, w @ [Write_df (row # rest), Http_get_key, Notice (File_error KeyError)])"
    by (simp add: main_upload)
next
  assume a: "json_normalize lib (JArr []) = Inr [] \<and>
    (map_of kvs ''organic_results'' = None \<or>
     map_of kvs ''organic_results'' = Some (JArr []))"
  then have "json_to_dataframe lib (JObj kvs) = Inr []"
    using json_to_dataframe_empty [of lib kvs] by blast
  then show "\<forall>x. fst (main_try lib env (Decodes (JObj kvs)) topic clicked s w) \<noteq> Raised x"
    using main_try_never_raises [of lib "JObj kvs" "[]"] by simp
next
  assume "json_to_dataframe lib good = Inr df \<and> (\<forall>r\<in>set df. record_of r \<noteq> None)"
  then show "\<forall>x. fst (main_try lib env (Decodes good) topic clicked s w) \<noteq> Raised x"
    using main_try_never_raises [of lib good df] by blast
qed

text \<open>
  C7, amended, at an upload that is not JSON, at the document \<open>[]\<close>, at a document
  whose only record has no snippet, at the document \<open>{}\<close>, and at the scenario document
  with a service whose third prompt call is answered with status 500.
\<close>

theorem malformed_upload_aborts_witness:
  "main demo_secrets example_library healthy (analyze_page Not_json) signed_in [] =
     (signed_in, [] @ [Notice (File_error JSONDecodeError)]) \<and>
   main demo_secrets example_library healthy (analyze_page (Decodes (JArr []))) signed_in [] =
     (signed_in, [] @ [Notice (File_error AttributeError)]) \<and>
   json_to_dataframe example_library no_snippet = Inr no_snippet_df \<and>
   record_of (hd no_snippet_df) = None \<and>
   main demo_secrets example_library healthy (analyze_page (Decodes no_snippet)) signed_in [] =
     (signed_in, [] @ [Write_df no_snippet_df, Http_get_key, Notice (File_error KeyError)]) \<and>
   (\<forall>x. fst (main_try example_library healthy (Decodes (JObj [])) ''widgets'' True
      signed_in []) \<noteq> Raised x) \<and>
   json_to_dataframe example_library widgets = Inr widgets_df \<and>
   list_all (\<lambda>row. record_of row \<noteq> None) widgets_df \<and>
   (\<forall>x. fst (main_try example_library third_prompt_500 (Decodes widgets) ''widgets'' True
      signed_in []) \<noteq> Raised x)"
proof -
  have pg: "logged_in signed_in" "\<And>up. uploaded_file (analyze_page up) = Some up"
    "\<And>up. search_term (analyze_page up) \<noteq> []" "\<And>up. analyze_clicked (analyze_page up)"
    "\<And>up. \<not> logout_clicked (analyze_page up)"
    by (simp_all add: signed_in_def analyze_page_def)
  have wf: "\<forall>row\<in>set widgets_df. record_of row \<noteq> None"
    by (simp add: widgets_df_def record_of_def)
  have nj: "json_load Not_json = Inl JSONDecodeError" by (simp add: json_load_def)
  have no: "\<forall>kvs. JArr [] \<noteq> JObj kvs" by simp
  note t1 = malformed_upload_aborts [where s = signed_in and pg = "analyze_page Not_json"
      and up = Not_json and e = JSONDecodeError and sec = demo_secrets
      and lib = example_library and env = healthy and w = "[]"]
  have 1: "main demo_secrets example_library healthy (analyze_page Not_json) signed_in [] =
     (signed_in, [] @ [Notice (File_error JSONDecodeError)])"
    using t1 [THEN conjunct2, THEN conjunct2, THEN conjunct1] pg nj by blast
  note t2 = malformed_upload_aborts [where s = signed_in
      and pg = "analyze_page (Decodes (JArr []))" and up = "Decodes (JArr [])"
      and e = AttributeError and sec = demo_secrets and lib = example_library
      and env = healthy and w = "[]" and j = "JArr []"]
  have ae: "json_to_dataframe example_library (JArr []) = Inl AttributeError"
    using t2 [THEN conjunct2, THEN conjunct1] no by blast
  have 2: "main demo_secrets example_library healthy (analyze_page (Decodes (JArr [])))
      signed_in [] = (signed_in, [] @ [Notice (File_error AttributeError)])"
    using t2 [THEN conjunct2, THEN conjunct2, THEN conjunct1] pg ae by blast
  have rn: "record_of (hd no_snippet_df) = None"
    by (simp add: no_snippet_df_def record_of_def)
  have df3: "json_to_dataframe example_library no_snippet = Inr (hd no_snippet_df # tl no_snippet_df)"
    by (simp add: json_to_dataframe_no_snippet no_snippet_df_def)
  have p3: "fst (fst (check_rate_limits healthy
      ([] @ [Write_df (hd no_snippet_df # tl no_snippet_df)]))) \<noteq> JNull"
    by (simp add: check_rate_limits_pair healthy_def rate_limit_try_shape
        rate_limit_pair_key_reply)
  note t3 = malformed_upload_aborts [where s = signed_in
      and pg = "analyze_page (Decodes no_snippet)" and doc = no_snippet
      and row = "hd no_snippet_df" and rest = "tl no_snippet_df" and sec = demo_secrets
      and lib = example_library and env = healthy and w = "[]"]
  have "main demo_secrets example_library healthy (analyze_page (Decodes no_snippet))
      signed_in [] =
     (signed_in, [] @ [Write_df (hd no_snippet_df # tl no_snippet_df), Http_get_key,
        Notice (File_error KeyError)])"
    using t3 [THEN conjunct2, THEN conjunct2, THEN conjunct2, THEN conjunct1] pg df3 rn p3
    by blast
  then have 3: "main demo_secrets example_library healthy (analyze_page (Decodes no_snippet))
      signed_in [] =
     (signed_in, [] @ [Write_df no_snippet_df, Http_get_key, Notice (File_error KeyError)])"
    by (simp add: no_snippet_df_def)
  note t4 = malformed_upload_aborts [where lib = example_library and kvs = "[]"
      and env = healthy and topic = "''widgets''" and clicked = True and s = signed_in
      and w = "[]"]
  have n: "json_normalize example_library (JArr []) = Inr []"
    by (simp add: example_library_def)
  have 4: "\<forall>x. fst (main_try example_library healthy (Decodes (JObj [])) ''widgets'' True
      signed_in []) \<noteq> Raised x"
    using t4 [THEN conjunct2, THEN conjunct2, THEN conjunct2, THEN conjunct2, THEN conjunct1] n
    by simp
  note t5 = malformed_upload_aborts [where lib = example_library and good = widgets
      and df = widgets_df and env = third_prompt_500 and topic = "''widgets''"
      and clicked = True and s = signed_in and w = "[]"]
  have 5: "\<forall>x. fst (main_try example_library third_prompt_500 (Decodes widgets) ''widgets''
      True signed_in []) \<noteq> Raised x"
    using t5 [THEN conjunct2, THEN conjunct2, THEN conjunct2, THEN conjunct2, THEN conjunct2]
      json_to_dataframe_widgets wf by blast
  from 1 2 3 4 5 rn wf json_to_dataframe_widgets json_to_dataframe_no_snippet
  show ?thesis unfolding list_all_iff by blast
qed

subsection \<open>C9\<close>

text \<open>
  C9 (a document without records). When \<open>json_normalize\<close> maps the empty list to the
  empty table, a document whose \<open>organic_results\<close> key is absent or maps to \<open>[]\<close> gives
  the empty record table; the batch processor then makes no call and returns no row; the
  body of \<open>main\<close> never raises on it; and when the probe passes, the run stores the
  empty result sequence and reports success for 0 ads, the only HTTP exchange being the
  probe.
\<close>

theorem missing_organic_results_is_empty_batch:
  "json_normalize lib (JArr []) = Inr [] \<Longrightarrow>
   map_of kvs ''organic_results'' = None \<or> map_of kvs ''organic_results'' = Some (JArr []) \<Longrightarrow>
   json_to_dataframe lib (JObj kvs) = Inr [] \<and>
   process_dataframe lib env [] topic w = (Inr [], w) \<and>
   fst (main_try lib env (Decodes (JObj kvs)) topic clicked s w) \<noteq> Raised e \<and>
   (logged_in s \<and> uploaded_file pg = Some (Decodes (JObj kvs)) \<and> search_term pg \<noteq> [] \<and>
    analyze_clicked pg \<and> \<not> logout_clicked pg \<and>
    fst (fst (check_rate_limits env (w @ [Write_df []]))) \<noteq> JNull \<longrightarrow>
      main sec lib env pg s w =
        (s\<lparr>results := Some []\<rparr>,
         w @ [Write_df [], Http_get_key, Notice (Analysis_complete 0), Download_csv []]))"
proof -
  assume n: "json_normalize lib (JArr []) = Inr []"
    and k: "map_of kvs ''organic_results'' = None \<or>
            map_of kvs ''organic_results'' = Some (JArr [])"
  have df: "json_to_dataframe lib (JObj kvs) = Inr []"
    using json_to_dataframe_empty [OF n k] .
  have pr: "process_dataframe lib env [] topic w = (Inr [], w)"
    by (simp add: process_dataframe_def)
  have nr: "fst (main_try lib env (Decodes (JObj kvs)) topic clicked s w) \<noteq> Raised e"
    using main_try_never_raises [OF df] by simp
  have "logged_in s \<and> uploaded_file pg = Some (Decodes (JObj kvs)) \<and> search_term pg \<noteq> [] \<and>
    analyze_clicked pg \<and> \<not> logout_clicked pg \<and>
    fst (fst (check_rate_limits env (w @ [Write_df []]))) \<noteq> JNull \<longrightarrow>
      main sec lib env pg s w =
        (s\<lparr>results := Some []\<rparr>,
         w @ [Write_df [], Http_get_key, Notice (Analysis_complete 0), Download_csv []])"
    using main_try_empty [OF df] by (auto simp: main_upload)
  with df pr nr show ?thesis by blast
qed

text \<open>
  C9 at the document \<open>{}\<close>.
\<close>

theorem missing_organic_results_is_empty_batch_witness:
  "json_normalize example_library (JArr []) = Inr [] \<and>
   map_of [] ''organic_results'' = (None :: json option) \<and>
   json_to_dataframe example_library (JObj []) = Inr [] \<and>
   process_dataframe example_library healthy [] ''widgets'' [Http_get_key] =
     (Inr [], [Http_get_key]) \<and>
   fst (fst (check_rate_limits healthy ([] @ [Write_df []]))) \<noteq> JNull \<and>
   main demo_secrets example_library healthy (analyze_page (Decodes (JObj []))) signed_in [] =
     (signed_in\<lparr>results := Some []\<rparr>,
      [] @ [Write_df [], Http_get_key, Notice (Analysis_complete 0), Download_csv []])"
proof -
  have n: "json_normalize example_library (JArr []) = Inr []"
    by (simp add: example_library_def)
  have k: "map_of [] ''organic_results'' = (None :: json option) \<or>
           map_of [] ''organic_results'' = Some (JArr [])"
    by simp
  have p: "fst (fst (check_rate_limits healthy ([] @ [Write_df []]))) \<noteq> JNull"
    by (simp add: check_rate_limits_pair healthy_def rate_limit_try_shape
        rate_limit_pair_key_reply)
  have pre: "logged_in signed_in \<and>
      uploaded_file (analyze_page (Decodes (JObj []))) = Some (Decodes (JObj [])) \<and>
      search_term (analyze_page (Decodes (JObj []))) \<noteq> [] \<and>
      analyze_clicked (analyze_page (Decodes (JObj []))) \<and>
      \<not> logout_clicked (analyze_page (Decodes (JObj [])))"
    by (simp add: signed_in_def analyze_page_def)
  from missing_organic_results_is_empty_batch [OF n k,
      where env = healthy and w = "[Http_get_key]" and s = signed_in
        and pg = "analyze_page (Decodes (JObj []))" and sec = demo_secrets
        and clicked = True and e = KeyError]
  have 1: "json_to_dataframe example_library (JObj []) = Inr []"
    and 2: "process_dataframe example_library healthy [] ''widgets'' [Http_get_key] =
      (Inr [], [Http_get_key])"
    by blast+
  from missing_organic_results_is_empty_batch [OF n k,
      where env = healthy and w = "[]" and s = signed_in
        and pg = "analyze_page (Decodes (JObj []))" and sec = demo_secrets
        and clicked = True and e = KeyError] pre p
  have 3: "main demo_secrets example_library healthy (analyze_page (Decodes (JObj []))) signed_in [] =
     (signed_in\<lparr>results := Some []\<rparr>,
      [] @ [Write_df [], Http_get_key, Notice (Analysis_complete 0), Download_csv []])"
    by blast
  from n 1 2 p 3 show ?thesis by simp
qed

subsection \<open>C10\<close>

text \<open>
  C10 (the probe converts every exception). When the endpoint answers HTTP 200 with a
  body that is not JSON or lacks the \<open>data.rate_limit\<close> shape, the exception raised in the
  \<open>try\<close> is caught: the probe emits the error message and returns (absent, absent).
  \<open>main\<close> then returns at once, exactly as it does when the probe's exchange fails at
  transport level: same session, same events up to the exception named in the message.
\<close>

theorem malformed_200_gates_like_transport_failure:
  "env (calls (w @ [Write_df df])) = Response 200 body \<Longrightarrow>
   body = None \<or> (\<exists>j. body = Some j \<and> rate_limit_pair j = None) \<Longrightarrow>
   \<exists>e. check_rate_limits env (w @ [Write_df df]) =
          ((JNull, JNull), w @ [Write_df df, Http_get_key, Notice (Rate_limit_error e)]) \<and>
        (logged_in s \<and> uploaded_file pg = Some (Decodes doc) \<and> search_term pg \<noteq> [] \<and>
         analyze_clicked pg \<and> json_to_dataframe lib doc = Inr df \<longrightarrow>
           main sec lib env pg s w =
             (s, w @ [Write_df df, Http_get_key, Notice (Rate_limit_error e)]) \<and>
           (failing (calls (w @ [Write_df df])) = Transport_failure \<longrightarrow>
              main sec lib failing pg s w =
                (s, w @ [Write_df df, Http_get_key, Notice (Rate_limit_error ConnectionError)])))"
proof -
  assume r: "env (calls (w @ [Write_df df])) = Response 200 body"
    and b: "body = None \<or> (\<exists>j. body = Some j \<and> rate_limit_pair j = None)"
  let ?w = "w @ [Write_df df]"
  from b obtain e where e: "rate_limit_try (Response 200 body) = Inl e"
    using rate_limit_try_not_json rate_limit_try_no_shape by blast
  have c: "check_rate_limits env ?w =
      ((JNull, JNull), w @ [Write_df df, Http_get_key, Notice (Rate_limit_error e)])"
    using check_rate_limits_raised [of env ?w e] r e by simp
  have "logged_in s \<and> uploaded_file pg = Some (Decodes doc) \<and> search_term pg \<noteq> [] \<and>
         analyze_clicked pg \<and> json_to_dataframe lib doc = Inr df \<longrightarrow>
           main sec lib env pg s w =
             (s, w @ [Write_df df, Http_get_key, Notice (Rate_limit_error e)]) \<and>
           (failing (calls (w @ [Write_df df])) = Transport_failure \<longrightarrow>
              main sec lib failing pg s w =
                (s, w @ [Write_df df, Http_get_key, Notice (Rate_limit_error ConnectionError)]))"
  proof (intro impI conjI)
    assume a: "logged_in s \<and> uploaded_file pg = Some (Decodes doc) \<and> search_term pg \<noteq> [] \<and>
         analyze_clicked pg \<and> json_to_dataframe lib doc = Inr df"
    then show "main sec lib env pg s w =
        (s, w @ [Write_df df, Http_get_key, Notice (Rate_limit_error e)])"
      using main_gated [of s pg doc lib df env w sec] c by simp
    assume "failing (calls (w @ [Write_df df])) = Transport_failure"
    then have "check_rate_limits failing ?w =
        ((JNull, JNull), w @ [Write_df df, Http_get_key, Notice (Rate_limit_error ConnectionError)])"
      using check_rate_limits_raised [of failing ?w ConnectionError]
      by (simp add: rate_limit_try_transport)
    with a show "main sec lib failing pg s w =
        (s, w @ [Write_df df, Http_get_key, Notice (Rate_limit_error ConnectionError)])"
      using main_gated [of s pg doc lib df failing w sec] by simp
  qed
  with c show ?thesis by blast
qed

text \<open>
  C10 at a service that answers the probe with status 200 and the body \<open>{}\<close>.
\<close>

theorem malformed_200_gates_like_transport_failure_witness:
  "empty_key_body (calls ([] @ [Write_df widgets_df])) = Response 200 (Some (JObj [])) \<and>
   rate_limit_pair (JObj []) = None \<and>
   unreachable (calls ([] @ [Write_df widgets_df])) = Transport_failure \<and>
   (\<exists>e. check_rate_limits empty_key_body ([] @ [Write_df widgets_df]) =
          ((JNull, JNull), [] @ [Write_df widgets_df, Http_get_key, Notice (Rate_limit_error e)]) \<and>
        main demo_secrets example_library empty_key_body (analyze_page (Decodes widgets))
            signed_in [] =
          (signed_in, [] @ [Write_df widgets_df, Http_get_key, Notice (Rate_limit_error e)])) \<and>
   main demo_secrets example_library unreachable (analyze_page (Decodes widgets)) signed_in [] =
     (signed_in,
      [] @ [Write_df widgets_df, Http_get_key, Notice (Rate_limit_error ConnectionError)])"
proof -
  have r: "empty_key_body (calls ([] @ [Write_df widgets_df])) = Response 200 (Some (JObj []))"
    by (simp add: empty_key_body_def)
  have n: "rate_limit_pair (JObj []) = None"
    by (simp add: rate_limit_pair_def)
  then have b: "Some (JObj []) = None \<or> (\<exists>j. Some (JObj []) = Some j \<and> rate_limit_pair j = None)"
    by simp
  have u: "unreachable (calls ([] @ [Write_df widgets_df])) = Transport_failure"
    by (simp add: unreachable_def)
  have pre: "logged_in signed_in \<and>
      uploaded_file (analyze_page (Decodes widgets)) = Some (Decodes widgets) \<and>
      search_term (analyze_page (Decodes widgets)) \<noteq> [] \<and>
      analyze_clicked (analyze_page (Decodes widgets)) \<and>
      json_to_dataframe example_library widgets = Inr widgets_df"
    by (simp add: signed_in_def analyze_page_def json_to_dataframe_widgets)
  from malformed_200_gates_like_transport_failure
      [where env = empty_key_body and w = "[]" and df = widgets_df and body = "Some (JObj [])"
        and s = signed_in and pg = "analyze_page (Decodes widgets)" and doc = widgets
        and lib = example_library and sec = demo_secrets and failing = unreachable, OF r b]
    pre u r n
  show ?thesis by blast
qed

end
